theory Spec2Isabelle
  imports Complex_Main
begin

section \<open>Shared values\<close>

text \<open>
  The exceptions that the modelled code can raise. A result of the fallible functions
  below is \<open>error + 'a\<close>, with \<open>Inl\<close> carrying the exception.
\<close>

datatype error =
    LookupFailed
  | TypeError
  | IndexError
  | ZeroDivisionError
  | ValueError
  | JSONDecodeError
  | StrategyError
  | PreventUpdate

text \<open>
  A Python float, with its three special values kept apart from the finite ones. Finite
  values are idealised as reals (rounding is not modelled).
\<close>

datatype pyfloat = Finite real | PosInf | NegInf | NaN

section \<open>trading/algorithms/utils.py\<close>

text \<open>
  \<open>Asset\<close> and \<open>Edge\<close> are declared in modules that this development does not see
  (\<open>trading.asset\<close>, \<open>trading.algorithms.network\<close>); \<open>utils.py\<close> reads the fields
  \<open>platform\<close> and \<open>symbol\<close> of an asset and builds an edge from five positional
  arguments, so both are records with those fields.
\<close>

record asset =
  platform :: string
  symbol :: string

record edge =
  from_asset :: asset
  from_node :: int
  to_asset :: asset
  to_node :: int
  weight :: pyfloat

text \<open>
  What one call \<open>exchanger.exchange(timestamp, from_asset, to_asset, timespan)\<close> can
  do: return a float, return \<open>None\<close>, or raise. The exchanger is a parameter of the
  graph builder; it is taken to answer the same question the same way.
\<close>

datatype quote = Rate pyfloat | NoRate | QuoteRaises

type_synonym exchanger = "int \<Rightarrow> asset \<Rightarrow> asset \<Rightarrow> int \<Rightarrow> quote"

text \<open>
  \<open>np.log\<close> on a float: the natural logarithm of a positive number, \<open>-inf\<close> at zero and
  \<open>nan\<close> below zero (numpy warns there and does not raise).
\<close>

fun np_log :: "pyfloat \<Rightarrow> pyfloat" where
  "np_log (Finite r) = (if 0 < r then Finite (ln r) else if r = 0 then NegInf else NaN)"
| "np_log PosInf = PosInf"
| "np_log NegInf = NaN"
| "np_log NaN = NaN"

text \<open>The dictionary key \<open>f'{platform}_{symbol}'\<close>.\<close>

definition asset_key :: "asset \<Rightarrow> string" where
  "asset_key a = platform a @ ''_'' @ symbol a"

text \<open>\<open>enumerate(assets)\<close>: every element with its position, a Python int.\<close>

definition enumerate_py :: "'a list \<Rightarrow> (int \<times> 'a) list" where
  "enumerate_py xs = zip (map int [0..<length xs]) xs"

text \<open>
  The inner loop of \<open>assets_to_edges_list\<close> over the targets still to visit, with
  \<open>edges_list\<close> as accumulator. The two \<open>continue\<close> tests come first and in the source's
  order; only then is the exchanger called. \<open>np.log(None)\<close> raises \<open>TypeError\<close>, and an
  exception of the exchanger leaves the function.
\<close>

fun inner_loop ::
  "exchanger \<Rightarrow> int \<Rightarrow> int \<Rightarrow> int \<Rightarrow> asset \<Rightarrow> (int \<times> asset) list \<Rightarrow> edge list
    \<Rightarrow> error + edge list" where
  "inner_loop ex ts tspan fn fa [] edges_list = Inr edges_list"
| "inner_loop ex ts tspan fn fa ((tn, ta) # rest) edges_list =
     (if fn = tn then inner_loop ex ts tspan fn fa rest edges_list
      else if platform fa \<noteq> platform ta \<and> symbol fa \<noteq> symbol ta
        then inner_loop ex ts tspan fn fa rest edges_list
      else (case ex ts fa ta tspan of
              QuoteRaises \<Rightarrow> Inl LookupFailed
            | NoRate \<Rightarrow> Inl TypeError
            | Rate r \<Rightarrow>
                inner_loop ex ts tspan fn fa rest
                  (edges_list @ [\<lparr>from_asset = fa, from_node = fn, to_asset = ta,
                                  to_node = tn, weight = np_log r\<rparr>])))"

text \<open>
  The outer loop: the key of the source asset is written into \<open>nodes_mapping\<close> before the
  inner loop runs over all of \<open>enumerate(assets)\<close>.
\<close>

fun outer_loop ::
  "exchanger \<Rightarrow> int \<Rightarrow> int \<Rightarrow> asset list \<Rightarrow> (int \<times> asset) list
    \<Rightarrow> edge list \<times> (string \<rightharpoonup> int) \<Rightarrow> error + edge list \<times> (string \<rightharpoonup> int)" where
  "outer_loop ex ts tspan assets [] st = Inr st"
| "outer_loop ex ts tspan assets ((fn, fa) # rest) (edges_list, nodes_mapping) =
     (case inner_loop ex ts tspan fn fa (enumerate_py assets) edges_list of
        Inl e \<Rightarrow> Inl e
      | Inr edges_list' \<Rightarrow>
          outer_loop ex ts tspan assets rest
            (edges_list', nodes_mapping(asset_key fa \<mapsto> fn)))"

definition assets_to_edges_list ::
  "asset list \<Rightarrow> int \<Rightarrow> exchanger \<Rightarrow> int \<Rightarrow> error + edge list \<times> (string \<rightharpoonup> int)" where
  "assets_to_edges_list assets timestamp ex timespan =
     outer_loop ex timestamp timespan assets (enumerate_py assets) ([], Map.empty)"

text \<open>
  \<open>assets[node]\<close>: Python reads a negative index from the end of the list and raises
  \<open>IndexError\<close> outside \<open>-len .. len - 1\<close>.
\<close>

definition py_index :: "'a list \<Rightarrow> int \<Rightarrow> error + 'a" where
  "py_index xs i =
     (if 0 \<le> i \<and> i < int (length xs) then Inr (xs ! nat i)
      else if i < 0 \<and> - int (length xs) \<le> i then Inr (xs ! nat (int (length xs) + i))
      else Inl IndexError)"

fun nodes_to_assets_loop :: "int list \<Rightarrow> asset list \<Rightarrow> asset list \<Rightarrow> error + asset list" where
  "nodes_to_assets_loop [] assets result = Inr result"
| "nodes_to_assets_loop (node # rest) assets result =
     (case py_index assets node of
        Inl e \<Rightarrow> Inl e
      | Inr a \<Rightarrow> nodes_to_assets_loop rest assets (result @ [a]))"

definition nodes_to_assets :: "int list \<Rightarrow> asset list \<Rightarrow> error + asset list" where
  "nodes_to_assets nodes assets = nodes_to_assets_loop nodes assets []"

section \<open>backend/web/pages/dashboard.py\<close>

subsection \<open>The session cache\<close>

text \<open>
  Every callback opens \<open>FileSystemStore(f'./cache/{session_id}')\<close>, a file-backed cache of
  the \<open>dash_extensions\<close> library, and uses three of its methods: \<open>get\<close>, which returns
  \<open>None\<close> for a key that holds nothing, \<open>set\<close> and \<open>clear\<close>. None of them raises. The
  cache of one session is a map from keys to the values the callbacks store: \<open>None\<close>, the
  report table, the list of graphs, the prices, or the progress (a float, idealised as a
  real). What a report, a graph and the prices are is left open (type parameters). Expiry
  of entries with time is not modelled.
\<close>

datatype ('r, 'g, 'p) cache_value =
    PyNone
  | ReportTable 'r
  | GraphsHistory "'g list"
  | Prices 'p
  | RunProgress real

type_synonym ('r, 'g, 'p) file_system_store = "string \<rightharpoonup> ('r, 'g, 'p) cache_value"

definition fsc_get :: "('r, 'g, 'p) file_system_store \<Rightarrow> string \<Rightarrow> ('r, 'g, 'p) cache_value" where
  "fsc_get fsc key = (case fsc key of None \<Rightarrow> PyNone | Some v \<Rightarrow> v)"

definition fsc_set ::
  "('r, 'g, 'p) file_system_store \<Rightarrow> string \<Rightarrow> ('r, 'g, 'p) cache_value
    \<Rightarrow> ('r, 'g, 'p) file_system_store" where
  "fsc_set fsc key v = fsc(key \<mapsto> v)"

definition fsc_clear :: "('r, 'g, 'p) file_system_store \<Rightarrow> ('r, 'g, 'p) file_system_store" where
  "fsc_clear fsc = Map.empty"

text \<open>\<open>reset_cache\<close>, statement by statement: the graphs history is read first and written back last.\<close>

definition reset_cache :: "('r, 'g, 'p) file_system_store \<Rightarrow> ('r, 'g, 'p) file_system_store" where
  "reset_cache fsc =
     (let gh = fsc_get fsc ''graphs_history'';
          fsc1 = fsc_clear fsc;
          fsc2 = fsc_set fsc1 ''report_table'' PyNone;
          fsc3 = fsc_set fsc2 ''run_progress'' PyNone
      in fsc_set fsc3 ''graphs_history'' gh)"

subsection \<open>The run callback\<close>

text \<open>
  One dictionary \<open>run_res\<close> yielded by the strategy, with the four keys the callback reads.
\<close>

record ('r, 'g, 'p) run_res =
  report :: 'r
  prices :: 'p
  graphs_history :: "'g list"
  end_timestamp :: int

text \<open>
  The strategies (\<open>trading.strategies\<close>) are not part of this development. The callback
  iterates over the generator that the chosen strategy returns; a generator that ends is a
  finite sequence of yields closed by its normal end or by an exception.
\<close>

datatype 'a generator = Exhausted | Raises error | Yields 'a "'a generator"

text \<open>
  The body of the \<open>for\<close> loop: three entries are stored, then the progress is computed
  with Python's true division, which raises \<open>ZeroDivisionError\<close> when the two request
  timestamps are equal, and stored. The cache keeps what was stored before an exception.
  The conversion of the report to a data frame is taken to succeed.
\<close>

definition publish ::
  "int \<Rightarrow> int \<Rightarrow> ('r, 'g, 'p) run_res \<Rightarrow> ('r, 'g, 'p) file_system_store
    \<Rightarrow> error option \<times> ('r, 'g, 'p) file_system_store" where
  "publish start_timestamp end_timestamp' r fsc =
     (let fsc1 = fsc_set fsc ''graphs_history'' (GraphsHistory (graphs_history r));
          fsc2 = fsc_set fsc1 ''report_table'' (ReportTable (report r));
          fsc3 = fsc_set fsc2 ''prices'' (Prices (prices r))
      in if end_timestamp' - start_timestamp = 0 then (Some ZeroDivisionError, fsc3)
         else (None,
               fsc_set fsc3 ''run_progress''
                 (RunProgress (real_of_int (end_timestamp r - start_timestamp)
                                 / real_of_int (end_timestamp' - start_timestamp) * 100))))"

text \<open>
  The \<open>for\<close> loop. It returns the cache as it stands after each pass through the body (the
  states a poller can see), and either the exception that ended the loop or the local
  \<open>graphs_history\<close> at its end.
\<close>

fun run_loop ::
  "int \<Rightarrow> int \<Rightarrow> ('r, 'g, 'p) run_res generator \<Rightarrow> 'g list \<Rightarrow> ('r, 'g, 'p) file_system_store
    \<Rightarrow> ('r, 'g, 'p) file_system_store list \<times> (error + 'g list)" where
  "run_loop start_timestamp end_timestamp' Exhausted gh fsc = ([], Inr gh)"
| "run_loop start_timestamp end_timestamp' (Raises e) gh fsc = ([], Inl e)"
| "run_loop start_timestamp end_timestamp' (Yields r rest) gh fsc =
     (case publish start_timestamp end_timestamp' r fsc of
        (Some e, fsc') \<Rightarrow> ([fsc'], Inl e)
      | (None, fsc') \<Rightarrow>
          (case run_loop start_timestamp end_timestamp' rest (graphs_history r) fsc' of
             (states, res) \<Rightarrow> (fsc' # states, res)))"

text \<open>
  The values of the controls that \<open>update_report_state\<close> reads before the loop.
\<close>

record controls =
  run_n_clicks :: "int option"
  json_portfolio :: string
  date_range :: "string \<times> string"
  start_time :: string
  end_time :: string
  primary_granularity :: int

text \<open>
  \<open>update_report_state\<close>. Three things it calls are parameters: \<open>parse_timestamp\<close> stands
  for the \<open>strptime\<close>/\<open>timestamp\<close>/\<open>int\<close> chain applied to a date and a time string,
  \<open>json_loads\<close> for \<open>json.loads\<close>, and \<open>strategy\<close> for the generator function
  \<open>name_to_strategy(strategy_name)\<close> with the arguments that do not matter here already
  supplied. The order is the source's: no click prevents the update; the cache is reset;
  the two timestamps are parsed; the portfolio is parsed while the arguments of the call
  are evaluated; the loop runs; \<open>graphs_history[-1]\<close> in the \<open>return\<close> raises
  \<open>IndexError\<close> on an empty list. The construction of the price API and of the blockchain
  after the reset is taken to succeed. The result lists the cache states from the reset on.
\<close>

definition update_report_state ::
  "(string \<Rightarrow> string \<Rightarrow> error + int) \<Rightarrow> (string \<Rightarrow> error + 'pf)
    \<Rightarrow> (int \<Rightarrow> int \<Rightarrow> int \<Rightarrow> 'pf \<Rightarrow> ('r, 'g, 'p) run_res generator)
    \<Rightarrow> controls \<Rightarrow> ('r, 'g, 'p) file_system_store
    \<Rightarrow> ('r, 'g, 'p) file_system_store list \<times> (error + unit)" where
  "update_report_state parse_timestamp json_loads strategy ctl fsc =
     (case run_n_clicks ctl of
        None \<Rightarrow> ([], Inl PreventUpdate)
      | Some n \<Rightarrow>
          (let fsc0 = reset_cache fsc in
           case parse_timestamp (fst (date_range ctl)) (start_time ctl) of
             Inl e \<Rightarrow> ([fsc0], Inl e)
           | Inr start_timestamp \<Rightarrow>
               (case parse_timestamp (snd (date_range ctl)) (end_time ctl) of
                  Inl e \<Rightarrow> ([fsc0], Inl e)
                | Inr end_timestamp' \<Rightarrow>
                    (case json_loads (json_portfolio ctl) of
                       Inl e \<Rightarrow> ([fsc0], Inl e)
                     | Inr portfolio \<Rightarrow>
                         (case run_loop start_timestamp end_timestamp'
                                 (strategy start_timestamp end_timestamp'
                                    (primary_granularity ctl) portfolio) [] fsc0 of
                            (states, Inl e) \<Rightarrow> (fsc0 # states, Inl e)
                          | (states, Inr gh) \<Rightarrow>
                              (fsc0 # states, if gh = [] then Inl IndexError else Inr ()))))))"

subsection \<open>The progress poller\<close>

text \<open>
  \<open>create_progress_bar\<close> is declared in \<open>backend.web.layouts.controls\<close>, outside this
  development: the component it returns is determined by its argument. The literal \<open>0\<close>
  of the source and the float \<open>0.0\<close> are the same number.
\<close>

datatype progress_bar = ProgressBar real

text \<open>
  \<open>update_run_progress\<close>: the bar it returns and the cache it leaves. A stored value that
  is neither \<open>None\<close> nor a number cannot be compared with \<open>100\<close>.
\<close>

definition update_run_progress ::
  "('r, 'g, 'p) file_system_store \<Rightarrow> (error + progress_bar) \<times> ('r, 'g, 'p) file_system_store" where
  "update_run_progress fsc =
     (case fsc_get fsc ''run_progress'' of
        PyNone \<Rightarrow> (Inr (ProgressBar 0), reset_cache fsc)
      | RunProgress v \<Rightarrow>
          (let value = min v 100
           in (Inr (ProgressBar value), if value = 100 then reset_cache fsc else fsc))
      | _ \<Rightarrow> (Inl TypeError, fsc))"

section \<open>Vocabulary for the graph builder's properties\<close>

text \<open>
  Two assets are linked when they share the platform or share the symbol: the negation of
  the source's second \<open>continue\<close> test.
\<close>

definition linked :: "asset \<Rightarrow> asset \<Rightarrow> bool" where
  "linked a b \<longleftrightarrow> platform a = platform b \<or> symbol a = symbol b"

text \<open>The float of a quote that carries one.\<close>

definition the_rate :: "quote \<Rightarrow> pyfloat" where
  "the_rate q = (case q of Rate r \<Rightarrow> r | _ \<Rightarrow> NaN)"

text \<open>
  The edge that the builder appends for the pair of positions \<open>i\<close>, \<open>j\<close>, and the test
  under which it does: the positions differ and the assets are linked.
\<close>

definition expected_edge :: "exchanger \<Rightarrow> int \<Rightarrow> int \<Rightarrow> asset list \<Rightarrow> nat \<Rightarrow> nat \<Rightarrow> edge" where
  "expected_edge ex ts tspan assets i j =
     \<lparr>from_asset = assets ! i, from_node = int i, to_asset = assets ! j, to_node = int j,
      weight = np_log (the_rate (ex ts (assets ! i) (assets ! j) tspan))\<rparr>"

definition eligible :: "asset list \<Rightarrow> nat \<Rightarrow> nat \<Rightarrow> bool" where
  "eligible assets i j \<longleftrightarrow> i \<noteq> j \<and> linked (assets ! i) (assets ! j)"

text \<open>
  The edges in the order in which the loops append them: for one source position the
  targets \<open>js\<close> in order, and for a list of source positions one row after the other.
\<close>

definition row_edges :: "exchanger \<Rightarrow> int \<Rightarrow> int \<Rightarrow> asset list \<Rightarrow> nat \<Rightarrow> nat list \<Rightarrow> edge list" where
  "row_edges ex ts tspan assets i js =
     map (expected_edge ex ts tspan assets i) (filter (eligible assets i) js)"

definition expected_edges :: "exchanger \<Rightarrow> int \<Rightarrow> int \<Rightarrow> asset list \<Rightarrow> nat list \<Rightarrow> edge list" where
  "expected_edges ex ts tspan assets is =
     concat (map (\<lambda>i. row_edges ex ts tspan assets i [0..<length assets]) is)"

text \<open>The node mapping after the keys of the positions \<open>is\<close> were written in that order.\<close>

definition expected_mapping :: "asset list \<Rightarrow> nat list \<Rightarrow> (string \<rightharpoonup> int) \<Rightarrow> (string \<rightharpoonup> int)" where
  "expected_mapping assets is nm = fold (\<lambda>i m. m(asset_key (assets ! i) \<mapsto> int i)) is nm"

text \<open>The quote source answers with a float for every pair the builder asks about.\<close>

definition all_quoted :: "exchanger \<Rightarrow> int \<Rightarrow> int \<Rightarrow> asset list \<Rightarrow> bool" where
  "all_quoted ex ts tspan assets \<longleftrightarrow>
     (\<forall>i<length assets. \<forall>j<length assets. eligible assets i j \<longrightarrow>
        (\<exists>r. ex ts (assets ! i) (assets ! j) tspan = Rate r))"

section \<open>Sample inputs\<close>

text \<open>
  Three assets: two on platform X, and BTC on both X and Y. ETH on X and BTC on Y share
  neither platform nor symbol.
\<close>

definition btc_x :: asset where "btc_x = \<lparr>platform = ''X'', symbol = ''BTC''\<rparr>"

definition eth_x :: asset where "eth_x = \<lparr>platform = ''X'', symbol = ''ETH''\<rparr>"

definition btc_y :: asset where "btc_y = \<lparr>platform = ''Y'', symbol = ''BTC''\<rparr>"

definition sample_assets :: "asset list" where
  "sample_assets = [btc_x, eth_x, btc_y]"

text \<open>
  Three quote sources: one that quotes the rate 2 for every pair; one that raises for ETH
  to BTC on X; one that quotes the rate 0 for that pair.
\<close>

definition flat_exchanger :: exchanger where
  "flat_exchanger ts a b tspan = Rate (Finite 2)"

definition gap_exchanger :: exchanger where
  "gap_exchanger ts a b tspan = (if a = eth_x \<and> b = btc_x then QuoteRaises else Rate (Finite 2))"

definition zero_exchanger :: exchanger where
  "zero_exchanger ts a b tspan = (if a = eth_x \<and> b = btc_x then Rate (Finite 0) else Rate (Finite 2))"

text \<open>Three indices into the sample assets, the second counted from the end.\<close>

definition sample_nodes :: "int list" where
  "sample_nodes = [2, - 1, 0]"

section \<open>Vocabulary for the dashboard's properties\<close>

text \<open>The values a generator yields, in order, and the generator that yields a given list.\<close>

fun yields_of :: "'a generator \<Rightarrow> 'a list" where
  "yields_of Exhausted = []"
| "yields_of (Raises e) = []"
| "yields_of (Yields r rest) = r # yields_of rest"

fun generator_of :: "'a list \<Rightarrow> 'a generator" where
  "generator_of [] = Exhausted"
| "generator_of (r # rs) = Yields r (generator_of rs)"

text \<open>
  The spec's progress formula \<open>(t - start) / (end - start) * 100\<close> and its clamp to
  \<open>[0, 100]\<close>, written from the spec's words.
\<close>

definition progress_percent :: "int \<Rightarrow> int \<Rightarrow> int \<Rightarrow> real" where
  "progress_percent start_timestamp end_timestamp' t =
     real_of_int (t - start_timestamp) / real_of_int (end_timestamp' - start_timestamp) * 100"

definition clamp_percent :: "real \<Rightarrow> real" where
  "clamp_percent x = (if x < 0 then 0 else if 100 < x then 100 else x)"

text \<open>What a sequence of cache states holds under the key \<open>run_progress\<close>.\<close>

definition published_progress ::
  "('r, 'g, 'p) file_system_store list \<Rightarrow> ('r, 'g, 'p) cache_value list" where
  "published_progress states = map (\<lambda>fsc. fsc_get fsc ''run_progress'') states"

text \<open>What the poller returns when it reads each of a sequence of cache states.\<close>

definition shown_progress ::
  "('r, 'g, 'p) file_system_store list \<Rightarrow> (error + progress_bar) list" where
  "shown_progress states = map (\<lambda>fsc. fst (update_run_progress fsc)) states"

section \<open>The strategy, from the spec\<close>

text \<open>
  Modelled from the spec: the step timestamps of a run. The strategy generators of
  \<open>trading.strategies\<close> are missing. Section 4.4 steps through each timestamp from start to
  end advancing by the primary granularity, and completes the run when the timestamp
  reaches the end, where the progress is 100: the timestamps advance by the granularity
  while they lie before the end, and the last one is the end itself. Its scenario from 0 to
  100 by 25 has the five steps 0, 25, 50, 75, 100. A granularity that is not positive,
  which the spec leaves open, gives no step.
\<close>

definition step_timestamps :: "int \<Rightarrow> int \<Rightarrow> int \<Rightarrow> int list" where
  "step_timestamps start_timestamp end_timestamp' granularity =
     (if granularity \<le> 0 then []
      else map (\<lambda>k. start_timestamp + int k * granularity)
             [0..<nat ((end_timestamp' - start_timestamp + granularity - 1) div granularity)]
           @ [end_timestamp'])"

text \<open>
  Modelled from the spec: the dictionary that the missing strategy yields for the step at
  \<open>t\<close>. Section 4.4 computes the progress of a step from its timestamp \<open>t\<close>, and
  \<open>dashboard.py\<close> computes it from the key \<open>end_timestamp\<close>, so that key carries \<open>t\<close>. The
  timestamp also stands in for the report, the prices and the one graph of the step, about
  which nothing is needed here.
\<close>

definition step_result :: "int \<Rightarrow> (int, int, int) run_res" where
  "step_result t = \<lparr>report = t, prices = t, graphs_history = [t], end_timestamp = t\<rparr>"

text \<open>
  Modelled from the spec: the validation of the run request, missing with the strategies.
  Sections 6 and 7 want the end timestamp strictly after the start and a valid amount that
  is not negative for every asset of the portfolio; otherwise the run fails before any
  step executes. A portfolio is the parsed JSON object: assets with their amounts, an
  amount that is no number being \<open>None\<close>.
\<close>

definition valid_portfolio :: "(string \<times> real option) list \<Rightarrow> bool" where
  "valid_portfolio portfolio =
     list_all (\<lambda>(a, amount). case amount of None \<Rightarrow> False | Some x \<Rightarrow> 0 \<le> x) portfolio"

text \<open>
  Modelled from the spec: the strategy generator that \<open>update_report_state\<close> iterates over
  (\<open>name_to_strategy\<close> of the missing \<open>trading.strategies\<close>), as far as the dashboard sees
  it: it rejects an invalid request before its first step and otherwise yields one
  dictionary for each step timestamp.
\<close>

definition stepping_strategy ::
  "int \<Rightarrow> int \<Rightarrow> int \<Rightarrow> (string \<times> real option) list \<Rightarrow> (int, int, int) run_res generator" where
  "stepping_strategy start_timestamp end_timestamp' granularity portfolio =
     (if end_timestamp' \<le> start_timestamp \<or> \<not> valid_portfolio portfolio
      then Raises ValueError
      else generator_of
             (map step_result (step_timestamps start_timestamp end_timestamp' granularity)))"

section \<open>Sample requests\<close>

text \<open>
  Stand-ins for the two parsers: the time strings of one day, in seconds, and the two
  portfolio texts used below.
\<close>

definition sample_parse_timestamp :: "string \<Rightarrow> string \<Rightarrow> error + int" where
  "sample_parse_timestamp date time =
     (if date \<noteq> ''1970-01-01'' then Inl ValueError
      else if time = ''1970-01-01T00:00:00'' then Inr 0
      else if time = ''1970-01-01T00:01:40'' then Inr 100
      else Inl ValueError)"

definition sample_json_loads :: "string \<Rightarrow> error + (string \<times> real option) list" where
  "sample_json_loads s = (if s = ''{}'' then Inr [] else Inl JSONDecodeError)"

definition sample_controls :: "int \<Rightarrow> controls" where
  "sample_controls granularity =
     \<lparr>run_n_clicks = Some 1, json_portfolio = ''{}'',
      date_range = (''1970-01-01'', ''1970-01-01''),
      start_time = ''1970-01-01T00:00:00'', end_time = ''1970-01-01T00:01:40'',
      primary_granularity = granularity\<rparr>"

text \<open>The same request with a portfolio that is not JSON, and with the end time equal to the start time.\<close>

definition malformed_controls :: controls where
  "malformed_controls = (sample_controls 25)\<lparr>json_portfolio := ''{''\<rparr>"

definition equal_range_controls :: controls where
  "equal_range_controls = (sample_controls 25)\<lparr>end_time := ''1970-01-01T00:00:00''\<rparr>"

text \<open>The cache of a session that has stored nothing, and a cache as an earlier run left it, half way.\<close>

definition empty_cache :: "(int, int, int) file_system_store" where
  "empty_cache = Map.empty"

definition used_cache :: "(int, int, int) file_system_store" where
  "used_cache =
     [''graphs_history'' \<mapsto> GraphsHistory [0, 25, 50], ''report_table'' \<mapsto> ReportTable 50,
      ''prices'' \<mapsto> Prices 50, ''run_progress'' \<mapsto> RunProgress 50]"

section \<open>The graph builder: both loops in closed form\<close>

lemma enumerate_py_map: "enumerate_py xs = map (\<lambda>j. (int j, xs ! j)) [0..<length xs]"
  by (rule nth_equalityI) (simp_all add: enumerate_py_def)

lemma inner_loop_ok:
  assumes "\<forall>j\<in>set js. eligible assets i j \<longrightarrow> (\<exists>r. ex ts (assets ! i) (assets ! j) tspan = Rate r)"
  shows "inner_loop ex ts tspan (int i) (assets ! i) (map (\<lambda>j. (int j, assets ! j)) js) acc
           = Inr (acc @ row_edges ex ts tspan assets i js)"
  using assms
proof (induction js arbitrary: acc)
  case Nil
  then show ?case by (simp add: row_edges_def)
next
  case (Cons j js)
  show ?case
  proof (cases "eligible assets i j")
    case True
    with Cons.prems obtain r where r: "ex ts (assets ! i) (assets ! j) tspan = Rate r"
      by auto
    from True have ne: "int i \<noteq> int j" and lk: "\<not> (platform (assets ! i) \<noteq> platform (assets ! j) \<and> symbol (assets ! i) \<noteq> symbol (assets ! j))"
      by (auto simp: eligible_def linked_def)
    have "inner_loop ex ts tspan (int i) (assets ! i) (map (\<lambda>j. (int j, assets ! j)) (j # js)) acc
        = inner_loop ex ts tspan (int i) (assets ! i) (map (\<lambda>j. (int j, assets ! j)) js) (acc @ [expected_edge ex ts tspan assets i j])"
      using ne lk r by (auto simp add: expected_edge_def the_rate_def)
    also have "\<dots> = Inr ((acc @ [expected_edge ex ts tspan assets i j]) @ row_edges ex ts tspan assets i js)"
      using Cons.prems by (intro Cons.IH) simp
    finally show ?thesis using True by (simp add: row_edges_def)
  next
    case False
    then have "inner_loop ex ts tspan (int i) (assets ! i) (map (\<lambda>j. (int j, assets ! j)) (j # js)) acc
        = inner_loop ex ts tspan (int i) (assets ! i) (map (\<lambda>j. (int j, assets ! j)) js) acc"
      by (auto simp: eligible_def linked_def)
    also have "\<dots> = Inr (acc @ row_edges ex ts tspan assets i js)"
      using Cons.prems by (intro Cons.IH) simp
    finally show ?thesis using False by (simp add: row_edges_def)
  qed
qed

lemma inner_loop_fail:
  assumes "j \<in> set js" "eligible assets i j" "\<forall>r. ex ts (assets ! i) (assets ! j) tspan \<noteq> Rate r"
  shows "\<exists>e. inner_loop ex ts tspan (int i) (assets ! i) (map (\<lambda>j. (int j, assets ! j)) js) acc = Inl e \<and> (e = LookupFailed \<or> e = TypeError)"
  using assms
proof (induction js arbitrary: acc)
  case Nil
  then show ?case by simp
next
  case (Cons k js)
  show ?case
  proof (cases "k = j")
    case True
    with Cons.prems show ?thesis
      by (cases "ex ts (assets ! i) (assets ! j) tspan") (auto simp: eligible_def linked_def)
  next
    case False
    with Cons.prems have "j \<in> set js" by simp
    from Cons.IH[OF this Cons.prems(2,3)] show ?thesis
      by (auto split: quote.splits)
  qed
qed

lemma outer_loop_ok:
  assumes "\<forall>i\<in>set is. \<forall>j<length assets. eligible assets i j \<longrightarrow>
             (\<exists>r. ex ts (assets ! i) (assets ! j) tspan = Rate r)"
  shows "outer_loop ex ts tspan assets (map (\<lambda>i. (int i, assets ! i)) is) (acc, nm)
           = Inr (acc @ expected_edges ex ts tspan assets is, expected_mapping assets is nm)"
  using assms
proof (induction "is" arbitrary: acc nm)
  case Nil
  then show ?case by (simp add: expected_edges_def expected_mapping_def)
next
  case (Cons i "is")
  have row: "inner_loop ex ts tspan (int i) (assets ! i) (enumerate_py assets) acc
               = Inr (acc @ row_edges ex ts tspan assets i [0..<length assets])"
    unfolding enumerate_py_map using Cons.prems by (intro inner_loop_ok) simp
  have rest: "outer_loop ex ts tspan assets (map (\<lambda>i. (int i, assets ! i)) is)
                (acc @ row_edges ex ts tspan assets i [0..<length assets],
                 nm(asset_key (assets ! i) \<mapsto> int i))
              = Inr ((acc @ row_edges ex ts tspan assets i [0..<length assets])
                       @ expected_edges ex ts tspan assets is,
                     expected_mapping assets is (nm(asset_key (assets ! i) \<mapsto> int i)))"
    using Cons.prems by (intro Cons.IH) simp
  show ?case
    by (simp add: row rest) (simp add: expected_edges_def expected_mapping_def)
qed

lemma outer_loop_fail:
  assumes "i \<in> set is" "j < length assets" "eligible assets i j"
    and "\<forall>r. ex ts (assets ! i) (assets ! j) tspan \<noteq> Rate r"
  shows "\<exists>e. outer_loop ex ts tspan assets (map (\<lambda>i. (int i, assets ! i)) is) (acc, nm) = Inl e
              \<and> (e = LookupFailed \<or> e = TypeError)"
  using assms(1)
proof (induction "is" arbitrary: acc nm)
  case Nil
  then show ?case by simp
next
  case (Cons k "is")
  show ?case
  proof (cases "inner_loop ex ts tspan (int k) (assets ! k) (enumerate_py assets) acc")
    case (Inl e)
    have "e = LookupFailed \<or> e = TypeError"
    proof -
      have "\<And>xs acc. inner_loop ex ts tspan (int k) (assets ! k) xs acc = Inl e
              \<Longrightarrow> e = LookupFailed \<or> e = TypeError"
      proof -
        fix xs acc
        show "inner_loop ex ts tspan (int k) (assets ! k) xs acc = Inl e
              \<Longrightarrow> e = LookupFailed \<or> e = TypeError"
          by (induction ex ts tspan "int k" "assets ! k" xs acc rule: inner_loop.induct)
             (auto split: if_splits quote.splits)
      qed
      with Inl show ?thesis by blast
    qed
    with Inl show ?thesis by simp
  next
    case (Inr es)
    have "k \<noteq> i"
    proof
      assume "k = i"
      from inner_loop_fail[of j "[0..<length assets]" assets i ex ts tspan acc] assms(2,3,4)
      obtain e where "inner_loop ex ts tspan (int i) (assets ! i) (enumerate_py assets) acc = Inl e"
        unfolding enumerate_py_map by auto
      with Inr \<open>k = i\<close> show False by simp
    qed
    with Cons.prems have "i \<in> set is" by simp
    from Cons.IH[OF this] Inr show ?thesis by simp
  qed
qed

lemma assets_to_edges_list_ok:
  assumes "all_quoted ex ts tspan assets"
  shows "assets_to_edges_list assets ts ex tspan
           = Inr (expected_edges ex ts tspan assets [0..<length assets],
                  expected_mapping assets [0..<length assets] Map.empty)"
proof -
  have "outer_loop ex ts tspan assets (map (\<lambda>i. (int i, assets ! i)) [0..<length assets]) ([], Map.empty)
          = Inr ([] @ expected_edges ex ts tspan assets [0..<length assets],
                 expected_mapping assets [0..<length assets] Map.empty)"
    using assms by (intro outer_loop_ok) (simp add: all_quoted_def)
  then show ?thesis
    by (simp add: assets_to_edges_list_def enumerate_py_map)
qed

lemma assets_to_edges_list_fail:
  assumes "\<not> all_quoted ex ts tspan assets"
  shows "\<exists>e. assets_to_edges_list assets ts ex tspan = Inl e \<and> (e = LookupFailed \<or> e = TypeError)"
proof -
  from assms obtain i j where ij: "i < length assets" "j < length assets" "eligible assets i j"
    "\<forall>r. ex ts (assets ! i) (assets ! j) tspan \<noteq> Rate r"
    by (auto simp: all_quoted_def)
  from outer_loop_fail[of i "[0..<length assets]" j assets ex ts tspan "[]" Map.empty] ij
  show ?thesis
    by (simp add: assets_to_edges_list_def enumerate_py_map)
qed

lemma assets_to_edges_list_Inr:
  assumes "assets_to_edges_list assets ts ex tspan = Inr (edges, nm)"
  shows "all_quoted ex ts tspan assets"
    and "edges = expected_edges ex ts tspan assets [0..<length assets]"
    and "nm = expected_mapping assets [0..<length assets] Map.empty"
proof -
  show q: "all_quoted ex ts tspan assets"
    using assms assets_to_edges_list_fail[of ex ts tspan assets] by auto
  from assets_to_edges_list_ok[OF q] assms
  show "edges = expected_edges ex ts tspan assets [0..<length assets]"
    and "nm = expected_mapping assets [0..<length assets] Map.empty"
    by simp_all
qed

lemma expected_edges_member:
  "e \<in> set (expected_edges ex ts tspan assets [0..<length assets]) \<longleftrightarrow>
     (\<exists>i<length assets. \<exists>j<length assets. eligible assets i j \<and> e = expected_edge ex ts tspan assets i j)"
  by (auto simp: expected_edges_def row_edges_def)

lemma row_edges_count:
  "length (filter (\<lambda>e. from_node e = int i \<and> to_node e = int j) (row_edges ex ts tspan assets k [0..<m]))
     = (if k = i \<and> j < m \<and> eligible assets i j then 1 else 0)"
  by (induction m) (auto simp: row_edges_def expected_edge_def)

lemma expected_edges_count:
  "length (filter (\<lambda>e. from_node e = int i \<and> to_node e = int j)
             (concat (map (\<lambda>k. row_edges ex ts tspan assets k [0..<m]) [0..<n])))
     = (if i < n \<and> j < m \<and> eligible assets i j then 1 else 0)"
  by (induction n) (auto simp: row_edges_count)

lemma expected_mapping_other:
  "k \<notin> (\<lambda>i. asset_key (assets ! i)) ` set is \<Longrightarrow> expected_mapping assets is nm k = nm k"
  by (induction "is" arbitrary: nm) (auto simp: expected_mapping_def)

lemma expected_mapping_at:
  "distinct (map (\<lambda>i. asset_key (assets ! i)) is) \<Longrightarrow> i \<in> set is
     \<Longrightarrow> expected_mapping assets is nm (asset_key (assets ! i)) = Some (int i)"
proof (induction "is" arbitrary: nm)
  case Nil
  then show ?case by simp
next
  case (Cons k "is")
  have step: "expected_mapping assets (k # is) nm
                = expected_mapping assets is (nm(asset_key (assets ! k) \<mapsto> int k))"
    by (simp add: expected_mapping_def)
  show ?case
  proof (cases "i = k")
    case True
    from Cons.prems(1) have "asset_key (assets ! k) \<notin> (\<lambda>i. asset_key (assets ! i)) ` set is"
      by auto
    from expected_mapping_other[OF this] True show ?thesis
      by (simp add: step)
  next
    case False
    with Cons.prems have "distinct (map (\<lambda>i. asset_key (assets ! i)) is)" "i \<in> set is"
      by auto
    from Cons.IH[OF this] show ?thesis by (simp add: step)
  qed
qed

lemma expected_mapping_dom:
  "dom (expected_mapping assets is nm) = dom nm \<union> (\<lambda>i. asset_key (assets ! i)) ` set is"
  by (induction "is" arbitrary: nm) (auto simp: expected_mapping_def)

lemma keys_by_position: "map (\<lambda>i. asset_key (assets ! i)) [0..<length assets] = map asset_key assets"
  by (rule nth_equalityI) simp_all

lemma nodes_to_assets_loop_ok:
  "\<forall>k\<in>set nodes. 0 \<le> k \<and> k < int (length assets) \<Longrightarrow>
     nodes_to_assets_loop nodes assets acc = Inr (acc @ map (\<lambda>k. assets ! nat k) nodes)"
  by (induction nodes arbitrary: acc) (auto simp: py_index_def)

text \<open>The builder run on the sample assets: four edges, none between ETH on X and BTC on Y.\<close>

lemma sample_run:
  "assets_to_edges_list sample_assets 0 flat_exchanger 60 =
     Inr ([\<lparr>from_asset = btc_x, from_node = 0, to_asset = eth_x, to_node = 1, weight = Finite (ln 2)\<rparr>,
           \<lparr>from_asset = btc_x, from_node = 0, to_asset = btc_y, to_node = 2, weight = Finite (ln 2)\<rparr>,
           \<lparr>from_asset = eth_x, from_node = 1, to_asset = btc_x, to_node = 0, weight = Finite (ln 2)\<rparr>,
           \<lparr>from_asset = btc_y, from_node = 2, to_asset = btc_x, to_node = 0, weight = Finite (ln 2)\<rparr>],
          [''X_BTC'' \<mapsto> 0, ''X_ETH'' \<mapsto> 1, ''Y_BTC'' \<mapsto> 2])"
  by (simp add: assets_to_edges_list_def enumerate_py_def sample_assets_def flat_exchanger_def
        btc_x_def eth_x_def btc_y_def asset_key_def upt_rec)

text \<open>
  The same assets with a quote source that raises for ETH to BTC on X, and with one that
  quotes the rate zero for that pair.
\<close>

lemma gap_run: "assets_to_edges_list sample_assets 0 gap_exchanger 60 = Inl LookupFailed"
  by (simp add: assets_to_edges_list_def enumerate_py_def sample_assets_def gap_exchanger_def
        btc_x_def eth_x_def btc_y_def asset_key_def upt_rec)

lemma zero_run:
  "assets_to_edges_list sample_assets 0 zero_exchanger 60 =
     Inr ([\<lparr>from_asset = btc_x, from_node = 0, to_asset = eth_x, to_node = 1, weight = Finite (ln 2)\<rparr>,
           \<lparr>from_asset = btc_x, from_node = 0, to_asset = btc_y, to_node = 2, weight = Finite (ln 2)\<rparr>,
           \<lparr>from_asset = eth_x, from_node = 1, to_asset = btc_x, to_node = 0, weight = NegInf\<rparr>,
           \<lparr>from_asset = btc_y, from_node = 2, to_asset = btc_x, to_node = 0, weight = Finite (ln 2)\<rparr>],
          [''X_BTC'' \<mapsto> 0, ''X_ETH'' \<mapsto> 1, ''Y_BTC'' \<mapsto> 2])"
  by (simp add: assets_to_edges_list_def enumerate_py_def sample_assets_def zero_exchanger_def
        btc_x_def eth_x_def btc_y_def asset_key_def upt_rec)

text \<open>\<open>nodes_to_assets\<close> on positions, and on negative indices.\<close>

lemma nodes_to_assets_sample: "nodes_to_assets [2, 0] sample_assets = Inr [btc_y, btc_x]"
  by (simp add: nodes_to_assets_def py_index_def sample_assets_def)

lemma nodes_to_assets_negative:
  "nodes_to_assets [- 1] sample_assets = Inr [btc_y]"
  "nodes_to_assets [- 4] sample_assets = Inl IndexError"
  by (simp_all add: nodes_to_assets_def py_index_def sample_assets_def)

text \<open>The same loop on every index that Python accepts.\<close>

lemma nodes_to_assets_loop_python:
  "\<forall>k\<in>set nodes. - int (length assets) \<le> k \<and> k < int (length assets) \<Longrightarrow>
     nodes_to_assets_loop nodes assets acc
       = Inr (acc @ map (\<lambda>k. assets ! nat (if k < 0 then int (length assets) + k else k)) nodes)"
  by (induction nodes arbitrary: acc) (auto simp: py_index_def)

lemma nodes_to_assets_sample_python:
  "nodes_to_assets sample_nodes sample_assets = Inr [btc_y, btc_y, btc_x]"
  by (simp add: nodes_to_assets_def py_index_def sample_assets_def sample_nodes_def)

section \<open>The cache and the run loop\<close>

lemma fsc_get_set: "fsc_get (fsc_set fsc k v) k' = (if k' = k then v else fsc_get fsc k')"
  by (simp add: fsc_get_def fsc_set_def)

lemma fsc_get_clear: "fsc_get (fsc_clear fsc) k = PyNone"
  by (simp add: fsc_get_def fsc_clear_def)

lemma fsc_get_reset_cache:
  "fsc_get (reset_cache fsc) k
     = (if k = ''graphs_history'' then fsc_get fsc ''graphs_history'' else PyNone)"
  by (simp add: reset_cache_def Let_def fsc_get_set fsc_get_clear)

lemma reset_cache_map:
  "reset_cache fsc = [''report_table'' \<mapsto> PyNone, ''run_progress'' \<mapsto> PyNone,
                      ''graphs_history'' \<mapsto> fsc_get fsc ''graphs_history'']"
  by (simp add: reset_cache_def Let_def fsc_set_def fsc_clear_def)

lemma publish_ok:
  "start_timestamp \<noteq> end_timestamp' \<Longrightarrow>
     publish start_timestamp end_timestamp' r fsc =
       (None, fsc(''graphs_history'' \<mapsto> GraphsHistory (graphs_history r),
                  ''report_table'' \<mapsto> ReportTable (report r),
                  ''prices'' \<mapsto> Prices (prices r),
                  ''run_progress'' \<mapsto>
                     RunProgress (progress_percent start_timestamp end_timestamp' (end_timestamp r))))"
  by (simp add: publish_def Let_def fsc_set_def progress_percent_def)

lemma publish_zero:
  "publish t t r fsc =
       (Some ZeroDivisionError,
        fsc(''graphs_history'' \<mapsto> GraphsHistory (graphs_history r),
            ''report_table'' \<mapsto> ReportTable (report r),
            ''prices'' \<mapsto> Prices (prices r)))"
  by (simp add: publish_def Let_def fsc_set_def)

lemma run_loop_published:
  "start_timestamp \<noteq> end_timestamp' \<Longrightarrow>
     published_progress (fst (run_loop start_timestamp end_timestamp' g gh fsc))
       = map (\<lambda>r. RunProgress (progress_percent start_timestamp end_timestamp' (end_timestamp r)))
           (yields_of g)"
proof (induction g arbitrary: gh fsc)
  case Exhausted
  then show ?case by (simp add: published_progress_def)
next
  case (Raises e)
  then show ?case by (simp add: published_progress_def)
next
  case (Yields r rest)
  let ?fsc' = "fsc(''graphs_history'' \<mapsto> GraphsHistory (graphs_history r),
                  ''report_table'' \<mapsto> ReportTable (report r),
                  ''prices'' \<mapsto> Prices (prices r),
                  ''run_progress'' \<mapsto>
                     RunProgress (progress_percent start_timestamp end_timestamp' (end_timestamp r)))"
  obtain states res
    where rl: "run_loop start_timestamp end_timestamp' rest (graphs_history r) ?fsc' = (states, res)"
    by (cases "run_loop start_timestamp end_timestamp' rest (graphs_history r) ?fsc'")
  have "run_loop start_timestamp end_timestamp' (Yields r rest) gh fsc = (?fsc' # states, res)"
    by (simp add: publish_ok[OF Yields.prems] rl)
  moreover have "published_progress states
       = map (\<lambda>r. RunProgress (progress_percent start_timestamp end_timestamp' (end_timestamp r)))
           (yields_of rest)"
    using Yields.IH[OF Yields.prems, of "graphs_history r" ?fsc'] by (simp only: rl fst_conv)
  ultimately show ?case
    by (simp add: published_progress_def fsc_get_def)
qed

lemma progress_percent_bounds:
  assumes "start_timestamp < end_timestamp'"
  shows "0 \<le> progress_percent start_timestamp end_timestamp' t \<longleftrightarrow> start_timestamp \<le> t"
    and "progress_percent start_timestamp end_timestamp' t \<le> 100 \<longleftrightarrow> t \<le> end_timestamp'"
    and "progress_percent start_timestamp end_timestamp' t = 100 \<longleftrightarrow> t = end_timestamp'"
  using assms by (simp_all add: progress_percent_def field_simps)

lemma progress_percent_mono:
  assumes "start_timestamp < end_timestamp'" and "t \<le> u"
  shows "progress_percent start_timestamp end_timestamp' t
           \<le> progress_percent start_timestamp end_timestamp' u"
proof -
  have "real_of_int (t - start_timestamp) \<le> real_of_int (u - start_timestamp)"
    using assms(2) by simp
  moreover have "0 \<le> real_of_int (end_timestamp' - start_timestamp)"
    using assms(1) by simp
  ultimately have "real_of_int (t - start_timestamp) / real_of_int (end_timestamp' - start_timestamp)
      \<le> real_of_int (u - start_timestamp) / real_of_int (end_timestamp' - start_timestamp)"
    by (rule divide_right_mono)
  then show ?thesis
    unfolding progress_percent_def by (rule mult_right_mono) simp
qed

lemma yields_of_generator_of: "yields_of (generator_of rs) = rs"
  by (induction rs) simp_all

lemma step_timestamps_25: "step_timestamps 0 100 25 = [0, 25, 50, 75, 100]"
  by (simp add: step_timestamps_def upt_rec)

lemma step_timestamps_30: "step_timestamps 0 100 30 = [0, 30, 60, 90, 100]"
  by (simp add: step_timestamps_def upt_rec)

lemma update_run_progress_shows:
  "fst (update_run_progress fsc) =
     (case fsc_get fsc ''run_progress'' of
        PyNone \<Rightarrow> Inr (ProgressBar 0)
      | RunProgress v \<Rightarrow> Inr (ProgressBar (min v 100))
      | _ \<Rightarrow> Inl TypeError)"
  by (simp add: update_run_progress_def Let_def split: cache_value.splits)

lemma shown_of_published:
  "shown_progress states =
     map (\<lambda>v. case v of PyNone \<Rightarrow> Inr (ProgressBar 0)
                | RunProgress x \<Rightarrow> Inr (ProgressBar (min x 100))
                | _ \<Rightarrow> Inl TypeError) (published_progress states)"
  by (simp add: shown_progress_def published_progress_def update_run_progress_shows)

lemma clamp_percent_in_range:
  assumes "start_timestamp < end_timestamp'" "start_timestamp \<le> t" "t \<le> end_timestamp'"
  shows "clamp_percent (progress_percent start_timestamp end_timestamp' t)
           = progress_percent start_timestamp end_timestamp' t"
    and "min (progress_percent start_timestamp end_timestamp' t) 100
           = progress_percent start_timestamp end_timestamp' t"
  using progress_percent_bounds(1,2)[OF assms(1), of t] assms(2,3)
  by (simp_all add: clamp_percent_def)

lemma update_report_state_run:
  assumes "run_n_clicks ctl = Some n"
    and "parse_timestamp (fst (date_range ctl)) (start_time ctl) = Inr s"
    and "parse_timestamp (snd (date_range ctl)) (end_time ctl) = Inr e"
    and "json_loads (json_portfolio ctl) = Inr pf"
  shows "fst (update_report_state parse_timestamp json_loads strategy ctl fsc)
           = reset_cache fsc
               # fst (run_loop s e (strategy s e (primary_granularity ctl) pf) [] (reset_cache fsc))"
  using assms by (simp add: update_report_state_def Let_def split: prod.splits sum.splits)

lemma scenario_progress:
  "published_progress (fst (run_loop 0 100 (stepping_strategy 0 100 25 []) [] fsc))
     = [RunProgress 0, RunProgress 25, RunProgress 50, RunProgress 75, RunProgress 100]"
  by (subst run_loop_published)
     (simp_all add: stepping_strategy_def valid_portfolio_def yields_of_generator_of step_timestamps_25
        step_result_def progress_percent_def)

lemma sample_run_30:
  "fst (update_report_state sample_parse_timestamp sample_json_loads stepping_strategy
          (sample_controls 30) fsc)
     = reset_cache fsc # fst (run_loop 0 100 (stepping_strategy 0 100 30 []) [] (reset_cache fsc))"
  by (subst update_report_state_run[where n = 1 and s = 0 and e = 100 and pf = "[]"])
     (simp_all add: sample_controls_def sample_parse_timestamp_def sample_json_loads_def)

text \<open>The sample requests, run.\<close>

lemma reset_cache_reads_none:
  "k \<noteq> ''graphs_history'' \<Longrightarrow> fsc_get (reset_cache fsc) k = PyNone"
  by (simp add: fsc_get_reset_cache)

lemma malformed_run:
  "update_report_state sample_parse_timestamp sample_json_loads strategy malformed_controls fsc
   = ([reset_cache fsc], Inl JSONDecodeError)"
  by (simp add: update_report_state_def Let_def malformed_controls_def sample_controls_def
        sample_parse_timestamp_def sample_json_loads_def)

lemma update_report_state_starts_with_reset:
  assumes "run_n_clicks ctl = Some n"
  shows "\<exists>states res. update_report_state parse_timestamp json_loads strategy ctl fsc
                        = (reset_cache fsc # states, res)"
  using assms
  by (simp add: update_report_state_def Let_def split: sum.splits prod.splits)

lemma first_step_cache:
  "fsc_get (snd (publish 0 100 (step_result 0) (reset_cache empty_cache))) ''run_progress''
     = RunProgress 0"
  by (simp add: publish_ok fsc_get_def progress_percent_def step_result_def)

text \<open>
  The step timestamps of a valid request are ordered, lie from start to end and finish
  at the end; so the progress stored over a run is ordered, and 100 exactly when the last
  step reports the end.
\<close>

lemma step_before_end:
  assumes "0 < g" and "k < nat ((e - s + g - 1) div g)"
  shows "s + int k * g < e"
proof -
  let ?q = "(e - s + g - 1) div g"
  from assms(2) have "int k + 1 \<le> ?q" by simp
  then have "(int k + 1) * g \<le> ?q * g"
    using assms(1) by (simp add: mult_right_mono)
  also have "?q * g \<le> e - s + g - 1"
  proof -
    have "0 \<le> (e - s + g - 1) mod g"
      using assms(1) by (rule pos_mod_sign)
    moreover have "?q * g = (e - s + g - 1) - (e - s + g - 1) mod g"
      by (simp only: minus_mod_eq_div_mult)
    ultimately show ?thesis by linarith
  qed
  finally show ?thesis by (simp add: algebra_simps)
qed

lemma step_timestamps_props:
  assumes "0 < g" and "s < e"
  shows "sorted (step_timestamps s e g)"
    and "step_timestamps s e g \<noteq> []"
    and "last (step_timestamps s e g) = e"
    and "\<forall>t\<in>set (step_timestamps s e g). s \<le> t \<and> t \<le> e"
proof -
  let ?n = "nat ((e - s + g - 1) div g)"
  let ?f = "\<lambda>k. s + int k * g"
  have st: "step_timestamps s e g = map ?f [0..<?n] @ [e]"
    using assms(1) by (simp add: step_timestamps_def)
  have "sorted_wrt (\<lambda>x y. ?f x \<le> ?f y) [0..<?n]"
    by (rule sorted_wrt_mono_rel[OF _ sorted_upt]) (use assms(1) in \<open>simp add: mult_right_mono\<close>)
  then have "sorted (map ?f [0..<?n])"
    by (simp add: sorted_map)
  moreover have lt: "\<forall>t\<in>set (map ?f [0..<?n]). t < e"
    using step_before_end[OF assms(1)] by auto
  ultimately show "sorted (step_timestamps s e g)"
    unfolding st by (auto simp: sorted_append intro: less_imp_le)
  show "step_timestamps s e g \<noteq> []" and "last (step_timestamps s e g) = e"
    by (simp_all add: st)
  show "\<forall>t\<in>set (step_timestamps s e g). s \<le> t \<and> t \<le> e"
    unfolding st using lt assms by auto
qed

lemma stepping_strategy_yields:
  "yields_of (stepping_strategy s e g pf)
     = (if e \<le> s \<or> \<not> valid_portfolio pf then [] else map step_result (step_timestamps s e g))"
  by (simp add: stepping_strategy_def yields_of_generator_of)

lemma end_timestamp_step_result: "map end_timestamp (map step_result ts) = ts"
  by (induction ts) (simp_all add: step_result_def)

lemma progress_monotone_last:
  assumes "start_timestamp < end_timestamp'"
    and "sorted (map end_timestamp (yields_of g))"
  shows "\<exists>ps. published_progress (fst (run_loop start_timestamp end_timestamp' g gh fsc))
                = map RunProgress ps \<and>
              sorted ps \<and>
              (ps \<noteq> [] \<longrightarrow>
                 (last ps = 100 \<longleftrightarrow> end_timestamp (last (yields_of g)) = end_timestamp'))"
proof -
  let ?f = "\<lambda>r. progress_percent start_timestamp end_timestamp' (end_timestamp r)"
  let ?ps = "map ?f (yields_of g)"
  from assms(1) have ne: "start_timestamp \<noteq> end_timestamp'" by simp
  have a: "published_progress (fst (run_loop start_timestamp end_timestamp' g gh fsc))
             = map RunProgress ?ps"
    by (simp add: run_loop_published[OF ne] comp_def)
  have "sorted_wrt (\<lambda>x y. end_timestamp x \<le> end_timestamp y) (yields_of g)"
    using assms(2) by (simp add: sorted_map)
  then have "sorted_wrt (\<lambda>x y. ?f x \<le> ?f y) (yields_of g)"
    by (rule sorted_wrt_mono_rel[rotated]) (simp add: progress_percent_mono[OF assms(1)])
  then have b: "sorted ?ps"
    by (simp add: sorted_map)
  have c: "?ps \<noteq> [] \<longrightarrow>
             (last ?ps = 100 \<longleftrightarrow> end_timestamp (last (yields_of g)) = end_timestamp')"
    by (simp add: last_map progress_percent_bounds(3)[OF assms(1)])
  from a b c show ?thesis by blast
qed

lemma scenario_shown:
  "shown_progress (fst (run_loop 0 100 (stepping_strategy 0 100 25 []) [] fsc))
     = [Inr (ProgressBar 0), Inr (ProgressBar 25), Inr (ProgressBar 50), Inr (ProgressBar 75),
        Inr (ProgressBar 100)]"
  by (simp add: shown_of_published scenario_progress)

section \<open>Claims about the graph builder\<close>

text \<open>
  Claim C1, as the code has it. For every quote source that answers with a rate for every
  pair that the construction rule admits, \<open>assets_to_edges_list\<close> returns a snapshot in
  which the number of edges from position \<open>i\<close> to position \<open>j\<close> is one if the positions
  differ and the two assets share the platform or the symbol, and zero otherwise (so there
  is no self-loop and no edge between assets that differ in both). Every edge carries the
  assets at its two positions and the weight \<open>np.log\<close> of the rate quoted for them, which
  is the natural logarithm for a positive rate.
\<close>

theorem assets_to_edges_list_construction_rule:
  assumes "\<forall>i<length assets. \<forall>j<length assets.
             i \<noteq> j \<and> linked (assets ! i) (assets ! j) \<longrightarrow>
               (\<exists>r. ex ts (assets ! i) (assets ! j) tspan = Rate r)"
  shows "\<exists>edges nm. assets_to_edges_list assets ts ex tspan = Inr (edges, nm) \<and>
           (\<forall>i<length assets. \<forall>j<length assets.
              length (filter (\<lambda>e. from_node e = int i \<and> to_node e = int j) edges)
                = (if i \<noteq> j \<and> linked (assets ! i) (assets ! j) then 1 else 0)) \<and>
           (\<forall>e\<in>set edges. \<exists>i<length assets. \<exists>j<length assets.
              from_node e = int i \<and> to_node e = int j \<and> i \<noteq> j \<and>
              from_asset e = assets ! i \<and> to_asset e = assets ! j \<and>
              linked (from_asset e) (to_asset e) \<and>
              (\<exists>r. ex ts (assets ! i) (assets ! j) tspan = Rate r \<and> weight e = np_log r \<and>
                   (\<forall>x. r = Finite x \<and> 0 < x \<longrightarrow> weight e = Finite (ln x))))"
proof -
  let ?es = "expected_edges ex ts tspan assets [0..<length assets]"
  from assms have q: "all_quoted ex ts tspan assets"
    by (simp add: all_quoted_def eligible_def)
  have res: "assets_to_edges_list assets ts ex tspan
               = Inr (?es, expected_mapping assets [0..<length assets] Map.empty)"
    by (rule assets_to_edges_list_ok[OF q])
  have cnt: "\<forall>i<length assets. \<forall>j<length assets.
              length (filter (\<lambda>e. from_node e = int i \<and> to_node e = int j) ?es)
                = (if i \<noteq> j \<and> linked (assets ! i) (assets ! j) then 1 else 0)"
    unfolding expected_edges_def by (simp add: expected_edges_count eligible_def)
  have each: "\<forall>e\<in>set ?es. \<exists>i<length assets. \<exists>j<length assets.
              from_node e = int i \<and> to_node e = int j \<and> i \<noteq> j \<and>
              from_asset e = assets ! i \<and> to_asset e = assets ! j \<and>
              linked (from_asset e) (to_asset e) \<and>
              (\<exists>r. ex ts (assets ! i) (assets ! j) tspan = Rate r \<and> weight e = np_log r \<and>
                   (\<forall>x. r = Finite x \<and> 0 < x \<longrightarrow> weight e = Finite (ln x)))"
  proof
    fix e assume "e \<in> set ?es"
    then obtain i j where ij: "i < length assets" "j < length assets" "eligible assets i j"
      and e: "e = expected_edge ex ts tspan assets i j"
      by (auto simp: expected_edges_member)
    from q ij obtain r where r: "ex ts (assets ! i) (assets ! j) tspan = Rate r"
      by (auto simp: all_quoted_def)
    have "from_node e = int i \<and> to_node e = int j \<and> i \<noteq> j \<and>
          from_asset e = assets ! i \<and> to_asset e = assets ! j \<and>
          linked (from_asset e) (to_asset e) \<and>
          (ex ts (assets ! i) (assets ! j) tspan = Rate r \<and> weight e = np_log r \<and>
             (\<forall>x. r = Finite x \<and> 0 < x \<longrightarrow> weight e = Finite (ln x)))"
      using ij(3) r by (auto simp: e expected_edge_def the_rate_def eligible_def)
    with ij(1,2) show "\<exists>i<length assets. \<exists>j<length assets.
              from_node e = int i \<and> to_node e = int j \<and> i \<noteq> j \<and>
              from_asset e = assets ! i \<and> to_asset e = assets ! j \<and>
              linked (from_asset e) (to_asset e) \<and>
              (\<exists>r. ex ts (assets ! i) (assets ! j) tspan = Rate r \<and> weight e = np_log r \<and>
                   (\<forall>x. r = Finite x \<and> 0 < x \<longrightarrow> weight e = Finite (ln x)))"
      by blast
  qed
  from res cnt each show ?thesis by blast
qed

theorem assets_to_edges_list_construction_rule_witness:
  "\<exists>edges nm. assets_to_edges_list sample_assets 0 flat_exchanger 60 = Inr (edges, nm) \<and>
           (\<forall>i<length sample_assets. \<forall>j<length sample_assets.
              length (filter (\<lambda>e. from_node e = int i \<and> to_node e = int j) edges)
                = (if i \<noteq> j \<and> linked (sample_assets ! i) (sample_assets ! j) then 1 else 0)) \<and>
           (\<forall>e\<in>set edges. \<exists>i<length sample_assets. \<exists>j<length sample_assets.
              from_node e = int i \<and> to_node e = int j \<and> i \<noteq> j \<and>
              from_asset e = sample_assets ! i \<and> to_asset e = sample_assets ! j \<and>
              linked (from_asset e) (to_asset e) \<and>
              (\<exists>r. flat_exchanger 0 (sample_assets ! i) (sample_assets ! j) 60 = Rate r \<and> weight e = np_log r \<and>
                   (\<forall>x. r = Finite x \<and> 0 < x \<longrightarrow> weight e = Finite (ln x))))"
proof -
  have h: "\<forall>i<length sample_assets. \<forall>j<length sample_assets.
             i \<noteq> j \<and> linked (sample_assets ! i) (sample_assets ! j) \<longrightarrow>
               (\<exists>r. flat_exchanger 0 (sample_assets ! i) (sample_assets ! j) 60 = Rate r)"
    by (simp add: flat_exchanger_def)
  show ?thesis
    using assets_to_edges_list_construction_rule[where assets = sample_assets and ex = flat_exchanger
        and ts = 0 and tspan = 60, OF h] .
qed

text \<open>
  Claim C1 as stated, for every quote source, fails on the sample assets with the source
  that raises for ETH to BTC on X: the call raises and produces no edge at all, not even
  for BTC to ETH on X, a pair that shares the platform and is quoted at 2.
\<close>

theorem construction_rule_counterexample:
  "assets_to_edges_list sample_assets 0 gap_exchanger 60 = Inl LookupFailed \<and>
   gap_exchanger 0 (sample_assets ! 0) (sample_assets ! 1) 60 = Rate (Finite 2) \<and>
   linked (sample_assets ! 0) (sample_assets ! 1)"
  by (simp add: gap_run) (simp add: gap_exchanger_def sample_assets_def linked_def
        btc_x_def eth_x_def)

text \<open>
  Claim C2, as the code has it. The builder has no handler around the quote lookup. If,
  for some pair that the construction rule admits, the quote source raises or returns
  \<open>None\<close>, \<open>assets_to_edges_list\<close> ends with an exception (\<open>LookupFailed\<close> stands for the
  exchanger's own, \<open>TypeError\<close> is \<open>np.log(None)\<close>) and returns no snapshot at all. If it
  returns a snapshot, then every admitted pair has an edge, also a pair whose rate is zero
  or negative: its weight is what \<open>np.log\<close> gives there, \<open>-inf\<close> or \<open>nan\<close>.
\<close>

theorem quote_gap_aborts_degenerate_rate_kept:
  "(i < length assets \<and> j < length assets \<and> i \<noteq> j \<and> linked (assets ! i) (assets ! j) \<and>
      (ex ts (assets ! i) (assets ! j) tspan = NoRate \<or>
       ex ts (assets ! i) (assets ! j) tspan = QuoteRaises)
      \<longrightarrow> (\<exists>err. assets_to_edges_list assets ts ex tspan = Inl err \<and>
                  (err = LookupFailed \<or> err = TypeError))) \<and>
   (assets_to_edges_list assets ts ex tspan = Inr (edges, nm) \<and>
      i < length assets \<and> j < length assets \<and> i \<noteq> j \<and> linked (assets ! i) (assets ! j)
      \<longrightarrow> (\<exists>r e. ex ts (assets ! i) (assets ! j) tspan = Rate r \<and> e \<in> set edges \<and>
                  from_node e = int i \<and> to_node e = int j \<and> weight e = np_log r \<and>
                  (\<forall>x. r = Finite x \<and> x \<le> 0 \<longrightarrow> weight e = (if x = 0 then NegInf else NaN))))"
proof (intro conjI impI)
  assume a: "i < length assets \<and> j < length assets \<and> i \<noteq> j \<and> linked (assets ! i) (assets ! j) \<and>
      (ex ts (assets ! i) (assets ! j) tspan = NoRate \<or>
       ex ts (assets ! i) (assets ! j) tspan = QuoteRaises)"
  then have "i < length assets" "j < length assets" "eligible assets i j"
    "\<forall>r. ex ts (assets ! i) (assets ! j) tspan \<noteq> Rate r"
    by (auto simp: eligible_def)
  then have "\<not> all_quoted ex ts tspan assets"
    unfolding all_quoted_def by blast
  then show "\<exists>err. assets_to_edges_list assets ts ex tspan = Inl err \<and>
                  (err = LookupFailed \<or> err = TypeError)"
    by (rule assets_to_edges_list_fail)
next
  assume a: "assets_to_edges_list assets ts ex tspan = Inr (edges, nm) \<and>
      i < length assets \<and> j < length assets \<and> i \<noteq> j \<and> linked (assets ! i) (assets ! j)"
  then have res: "assets_to_edges_list assets ts ex tspan = Inr (edges, nm)" by simp
  from a have el: "i < length assets" "j < length assets" "eligible assets i j"
    by (simp_all add: eligible_def)
  from assets_to_edges_list_Inr(1)[OF res] el
  obtain r where r: "ex ts (assets ! i) (assets ! j) tspan = Rate r"
    by (auto simp: all_quoted_def)
  let ?e = "expected_edge ex ts tspan assets i j"
  have "?e \<in> set edges"
    using el by (auto simp: assets_to_edges_list_Inr(2)[OF res] expected_edges_member)
  moreover have "from_node ?e = int i \<and> to_node ?e = int j \<and> weight ?e = np_log r \<and>
                  (\<forall>x. r = Finite x \<and> x \<le> 0 \<longrightarrow> weight ?e = (if x = 0 then NegInf else NaN))"
    using r by (auto simp: expected_edge_def the_rate_def)
  ultimately show "\<exists>r e. ex ts (assets ! i) (assets ! j) tspan = Rate r \<and> e \<in> set edges \<and>
                  from_node e = int i \<and> to_node e = int j \<and> weight e = np_log r \<and>
                  (\<forall>x. r = Finite x \<and> x \<le> 0 \<longrightarrow> weight e = (if x = 0 then NegInf else NaN))"
    using r by blast
qed

theorem quote_gap_aborts_degenerate_rate_kept_witness:
  "(\<exists>err. assets_to_edges_list sample_assets 0 gap_exchanger 60 = Inl err \<and>
          (err = LookupFailed \<or> err = TypeError)) \<and>
   (\<exists>r e. zero_exchanger 0 (sample_assets ! 1) (sample_assets ! 0) 60 = Rate r \<and>
       e \<in> set (fst (projr (assets_to_edges_list sample_assets 0 zero_exchanger 60))) \<and>
       from_node e = int 1 \<and> to_node e = int 0 \<and> weight e = np_log r \<and>
       (\<forall>x. r = Finite x \<and> x \<le> 0 \<longrightarrow> weight e = (if x = 0 then NegInf else NaN)))"
proof -
  have h1: "1 < length sample_assets \<and> 0 < length sample_assets \<and> (1::nat) \<noteq> 0 \<and>
        linked (sample_assets ! 1) (sample_assets ! 0) \<and>
        (gap_exchanger 0 (sample_assets ! 1) (sample_assets ! 0) 60 = NoRate \<or>
         gap_exchanger 0 (sample_assets ! 1) (sample_assets ! 0) 60 = QuoteRaises)"
    by (simp add: sample_assets_def linked_def gap_exchanger_def btc_x_def eth_x_def)
  have h2: "assets_to_edges_list sample_assets 0 zero_exchanger 60
              = Inr (fst (projr (assets_to_edges_list sample_assets 0 zero_exchanger 60)),
                     snd (projr (assets_to_edges_list sample_assets 0 zero_exchanger 60))) \<and>
        1 < length sample_assets \<and> 0 < length sample_assets \<and> (1::nat) \<noteq> 0 \<and>
        linked (sample_assets ! 1) (sample_assets ! 0)"
    by (simp add: zero_run) (simp add: sample_assets_def linked_def btc_x_def eth_x_def)
  from quote_gap_aborts_degenerate_rate_kept[where assets = sample_assets and i = 1 and j = 0
      and ex = gap_exchanger and ts = 0 and tspan = 60] h1
  have a: "\<exists>err. assets_to_edges_list sample_assets 0 gap_exchanger 60 = Inl err \<and>
          (err = LookupFailed \<or> err = TypeError)"
    by blast
  from quote_gap_aborts_degenerate_rate_kept[where assets = sample_assets and i = 1 and j = 0
      and ex = zero_exchanger and ts = 0 and tspan = 60
      and edges = "fst (projr (assets_to_edges_list sample_assets 0 zero_exchanger 60))"
      and nm = "snd (projr (assets_to_edges_list sample_assets 0 zero_exchanger 60))"] h2
  have b: "\<exists>r e. zero_exchanger 0 (sample_assets ! 1) (sample_assets ! 0) 60 = Rate r \<and>
       e \<in> set (fst (projr (assets_to_edges_list sample_assets 0 zero_exchanger 60))) \<and>
       from_node e = int 1 \<and> to_node e = int 0 \<and> weight e = np_log r \<and>
       (\<forall>x. r = Finite x \<and> x \<le> 0 \<longrightarrow> weight e = (if x = 0 then NegInf else NaN))"
    by blast
  from a b show ?thesis by blast
qed

text \<open>
  Claim C2 as stated fails on the sample assets: with a quote source that raises for one
  pair the whole call raises, where the claim keeps the three other edges; with the rate
  zero for that pair the edge is stored with weight \<open>-inf\<close>, where the claim omits it.
\<close>

theorem quote_gap_counterexample:
  "assets_to_edges_list sample_assets 0 gap_exchanger 60 = Inl LookupFailed \<and>
   assets_to_edges_list sample_assets 0 zero_exchanger 60 =
     Inr ([\<lparr>from_asset = btc_x, from_node = 0, to_asset = eth_x, to_node = 1, weight = Finite (ln 2)\<rparr>,
           \<lparr>from_asset = btc_x, from_node = 0, to_asset = btc_y, to_node = 2, weight = Finite (ln 2)\<rparr>,
           \<lparr>from_asset = eth_x, from_node = 1, to_asset = btc_x, to_node = 0, weight = NegInf\<rparr>,
           \<lparr>from_asset = btc_y, from_node = 2, to_asset = btc_x, to_node = 0, weight = Finite (ln 2)\<rparr>],
          [''X_BTC'' \<mapsto> 0, ''X_ETH'' \<mapsto> 1, ''Y_BTC'' \<mapsto> 2])"
  by (rule conjI[OF gap_run zero_run])

text \<open>
  Claim C3. For an asset list whose \<open>platform_symbol\<close> keys are pairwise distinct, and a
  call of \<open>assets_to_edges_list\<close> that returns, the returned node mapping sends the key of
  the asset at each position to that position and has no other key; and every returned
  edge has as \<open>from_node\<close> and \<open>to_node\<close> the one position at which the input list holds
  its \<open>from_asset\<close> and its \<open>to_asset\<close>.
\<close>

theorem nodes_mapping_is_position:
  assumes "distinct (map asset_key assets)"
    and "assets_to_edges_list assets ts ex tspan = Inr (edges, nm)"
  shows "(\<forall>i<length assets. nm (asset_key (assets ! i)) = Some (int i)) \<and>
         dom nm = asset_key ` set assets \<and>
         (\<forall>e\<in>set edges.
            0 \<le> from_node e \<and> from_node e < int (length assets) \<and>
            assets ! nat (from_node e) = from_asset e \<and>
            (\<forall>i<length assets. assets ! i = from_asset e \<longrightarrow> from_node e = int i) \<and>
            0 \<le> to_node e \<and> to_node e < int (length assets) \<and>
            assets ! nat (to_node e) = to_asset e \<and>
            (\<forall>j<length assets. assets ! j = to_asset e \<longrightarrow> to_node e = int j))"
proof -
  let ?n = "length assets"
  have nm: "nm = expected_mapping assets [0..<?n] Map.empty"
    and es: "edges = expected_edges ex ts tspan assets [0..<?n]"
    using assets_to_edges_list_Inr[OF assms(2)] by simp_all
  have dk: "distinct (map (\<lambda>i. asset_key (assets ! i)) [0..<?n])"
    using assms(1) by (simp add: keys_by_position)
  have da: "distinct assets"
    using assms(1) by (rule distinct_map[THEN iffD1, THEN conjunct1])
  have m: "\<forall>i<?n. nm (asset_key (assets ! i)) = Some (int i)"
    using expected_mapping_at[OF dk] by (simp add: nm)
  have "(\<lambda>i. asset_key (assets ! i)) ` set [0..<?n] = set (map (\<lambda>i. asset_key (assets ! i)) [0..<?n])"
    by simp
  also have "\<dots> = asset_key ` set assets"
    by (simp only: keys_by_position set_map)
  finally have d: "dom nm = asset_key ` set assets"
    by (simp add: nm expected_mapping_dom)
  have e: "\<forall>e\<in>set edges.
            0 \<le> from_node e \<and> from_node e < int ?n \<and>
            assets ! nat (from_node e) = from_asset e \<and>
            (\<forall>i<?n. assets ! i = from_asset e \<longrightarrow> from_node e = int i) \<and>
            0 \<le> to_node e \<and> to_node e < int ?n \<and>
            assets ! nat (to_node e) = to_asset e \<and>
            (\<forall>j<?n. assets ! j = to_asset e \<longrightarrow> to_node e = int j)"
  proof
    fix e assume "e \<in> set edges"
    then obtain i j where ij: "i < ?n" "j < ?n" and e: "e = expected_edge ex ts tspan assets i j"
      by (auto simp: es expected_edges_member)
    have u: "\<And>k l. k < ?n \<Longrightarrow> l < ?n \<Longrightarrow> assets ! k = assets ! l \<Longrightarrow> l = k"
      using da by (simp add: nth_eq_iff_index_eq)
    show "0 \<le> from_node e \<and> from_node e < int ?n \<and>
            assets ! nat (from_node e) = from_asset e \<and>
            (\<forall>i<?n. assets ! i = from_asset e \<longrightarrow> from_node e = int i) \<and>
            0 \<le> to_node e \<and> to_node e < int ?n \<and>
            assets ! nat (to_node e) = to_asset e \<and>
            (\<forall>j<?n. assets ! j = to_asset e \<longrightarrow> to_node e = int j)"
      using ij u by (auto simp: e expected_edge_def)
  qed
  from m d e show ?thesis by blast
qed

theorem nodes_mapping_is_position_witness:
  "\<exists>edges nm. distinct (map asset_key sample_assets) \<and>
      assets_to_edges_list sample_assets 0 flat_exchanger 60 = Inr (edges, nm) \<and>
      (\<forall>i<length sample_assets. nm (asset_key (sample_assets ! i)) = Some (int i)) \<and>
      dom nm = asset_key ` set sample_assets \<and>
      (\<forall>e\<in>set edges.
         0 \<le> from_node e \<and> from_node e < int (length sample_assets) \<and>
         sample_assets ! nat (from_node e) = from_asset e \<and>
         (\<forall>i<length sample_assets. sample_assets ! i = from_asset e \<longrightarrow> from_node e = int i) \<and>
         0 \<le> to_node e \<and> to_node e < int (length sample_assets) \<and>
         sample_assets ! nat (to_node e) = to_asset e \<and>
         (\<forall>j<length sample_assets. sample_assets ! j = to_asset e \<longrightarrow> to_node e = int j))"
proof -
  have d: "distinct (map asset_key sample_assets)"
    by (simp add: sample_assets_def asset_key_def btc_x_def eth_x_def btc_y_def)
  define edges where "edges = fst (projr (assets_to_edges_list sample_assets 0 flat_exchanger 60))"
  define nm where "nm = snd (projr (assets_to_edges_list sample_assets 0 flat_exchanger 60))"
  have r: "assets_to_edges_list sample_assets 0 flat_exchanger 60 = Inr (edges, nm)"
    unfolding edges_def nm_def by (simp add: sample_run)
  note c = nodes_mapping_is_position[OF d r]
  show ?thesis
    by (rule exI[of _ edges], rule exI[of _ nm]) (rule conjI[OF d conjI[OF r c]])
qed

text \<open>
  Claim C10, as the code has it. \<open>assets[node]\<close> is Python's indexing. For node indices
  each below the length of the asset list and not below its negation, \<open>nodes_to_assets\<close>
  returns a list as long as the index list whose \<open>i\<close>-th element is \<open>assets[nodes[i]]\<close>: the
  asset at position \<open>nodes[i]\<close>, counted from the end of the list when the index is
  negative. Hence, for every edge of a snapshot that \<open>assets_to_edges_list\<close> returns,
  \<open>nodes_to_assets\<close> applied to \<open>[from_node, to_node]\<close> gives \<open>[from_asset, to_asset]\<close>.
\<close>

theorem nodes_to_assets_positions:
  "((\<forall>k\<in>set nodes. - int (length assets) \<le> k \<and> k < int (length assets)) \<longrightarrow>
      (\<exists>res. nodes_to_assets nodes assets = Inr res \<and> length res = length nodes \<and>
             (\<forall>i<length nodes.
                res ! i = assets ! nat (if nodes ! i < 0 then int (length assets) + nodes ! i
                                        else nodes ! i)))) \<and>
   (assets_to_edges_list assets ts ex tspan = Inr (edges, nm) \<longrightarrow>
      (\<forall>e\<in>set edges. nodes_to_assets [from_node e, to_node e] assets
                        = Inr [from_asset e, to_asset e]))"
proof (intro conjI impI)
  assume "\<forall>k\<in>set nodes. - int (length assets) \<le> k \<and> k < int (length assets)"
  then have "nodes_to_assets nodes assets
      = Inr (map (\<lambda>k. assets ! nat (if k < 0 then int (length assets) + k else k)) nodes)"
    by (simp add: nodes_to_assets_def nodes_to_assets_loop_python)
  then show "\<exists>res. nodes_to_assets nodes assets = Inr res \<and> length res = length nodes \<and>
             (\<forall>i<length nodes.
                res ! i = assets ! nat (if nodes ! i < 0 then int (length assets) + nodes ! i
                                        else nodes ! i))"
    by simp
next
  assume res: "assets_to_edges_list assets ts ex tspan = Inr (edges, nm)"
  show "\<forall>e\<in>set edges. nodes_to_assets [from_node e, to_node e] assets
                        = Inr [from_asset e, to_asset e]"
  proof
    fix e assume "e \<in> set edges"
    then obtain i j where ij: "i < length assets" "j < length assets"
      and e: "e = expected_edge ex ts tspan assets i j"
      by (auto simp: assets_to_edges_list_Inr(2)[OF res] expected_edges_member)
    have "\<forall>k\<in>set [from_node e, to_node e]. 0 \<le> k \<and> k < int (length assets)"
      using ij by (simp add: e expected_edge_def)
    then have "nodes_to_assets [from_node e, to_node e] assets
                 = Inr (map (\<lambda>k. assets ! nat k) [from_node e, to_node e])"
      by (simp only: nodes_to_assets_def nodes_to_assets_loop_ok append_Nil)
    then show "nodes_to_assets [from_node e, to_node e] assets = Inr [from_asset e, to_asset e]"
      by (simp add: e expected_edge_def)
  qed
qed

theorem nodes_to_assets_positions_witness:
  "(\<exists>res. nodes_to_assets sample_nodes sample_assets = Inr res \<and>
          length res = length sample_nodes \<and>
          (\<forall>i<length sample_nodes.
             res ! i = sample_assets ! nat (if sample_nodes ! i < 0
                                            then int (length sample_assets) + sample_nodes ! i
                                            else sample_nodes ! i))) \<and>
   (\<exists>edges nm. assets_to_edges_list sample_assets 0 flat_exchanger 60 = Inr (edges, nm) \<and>
      (\<forall>e\<in>set edges. nodes_to_assets [from_node e, to_node e] sample_assets
                        = Inr [from_asset e, to_asset e]))"
proof -
  have h: "\<forall>k\<in>set sample_nodes. - int (length sample_assets) \<le> k \<and> k < int (length sample_assets)"
    by (simp add: sample_assets_def sample_nodes_def)
  define edges where "edges = fst (projr (assets_to_edges_list sample_assets 0 flat_exchanger 60))"
  define nm where "nm = snd (projr (assets_to_edges_list sample_assets 0 flat_exchanger 60))"
  have r: "assets_to_edges_list sample_assets 0 flat_exchanger 60 = Inr (edges, nm)"
    unfolding edges_def nm_def by (simp add: sample_run)
  note t = nodes_to_assets_positions[where nodes = sample_nodes and assets = sample_assets
      and ts = 0 and ex = flat_exchanger and tspan = 60 and edges = edges and nm = nm]
  from t h have a: "\<exists>res. nodes_to_assets sample_nodes sample_assets = Inr res \<and>
          length res = length sample_nodes \<and>
          (\<forall>i<length sample_nodes.
             res ! i = sample_assets ! nat (if sample_nodes ! i < 0
                                            then int (length sample_assets) + sample_nodes ! i
                                            else sample_nodes ! i))"
    by (rule conjunct1[THEN mp])
  from t r have b: "\<forall>e\<in>set edges. nodes_to_assets [from_node e, to_node e] sample_assets
                        = Inr [from_asset e, to_asset e]"
    by (rule conjunct2[THEN mp])
  show ?thesis
    by (rule conjI[OF a], rule exI[of _ edges], rule exI[of _ nm]) (rule conjI[OF r b])
qed

text \<open>
  Claim C10 as stated fails for an index below the negated length: with three assets the
  index -4 is below the length, and the call raises \<open>IndexError\<close>.
\<close>

theorem nodes_to_assets_counterexample:
  "nodes_to_assets [- 4] sample_assets = Inl IndexError \<and> - 4 < int (length sample_assets)"
  by (simp add: nodes_to_assets_def py_index_def sample_assets_def)

section \<open>Claims about the dashboard\<close>

text \<open>
  Claim C4. In a run from a start to a later end, at every step that reports a timestamp
  \<open>t\<close> from start to end, the value stored under \<open>run_progress\<close> after the step, and the
  value on the bar that the poller returns when it reads the cache after that step, both
  are \<open>(t - start) / (end - start) * 100\<close> clamped to \<open>[0, 100]\<close>. The run is any generator
  that the loop of \<open>update_report_state\<close> iterates over.
\<close>

theorem progress_published_and_shown:
  assumes "start_timestamp < end_timestamp'"
    and "\<forall>r\<in>set (yields_of g). start_timestamp \<le> end_timestamp r \<and> end_timestamp r \<le> end_timestamp'"
  shows "published_progress (fst (run_loop start_timestamp end_timestamp' g gh fsc))
           = map (\<lambda>r. RunProgress (clamp_percent
                    (progress_percent start_timestamp end_timestamp' (end_timestamp r))))
               (yields_of g) \<and>
         shown_progress (fst (run_loop start_timestamp end_timestamp' g gh fsc))
           = map (\<lambda>r. Inr (ProgressBar (clamp_percent
                    (progress_percent start_timestamp end_timestamp' (end_timestamp r)))))
               (yields_of g)"
proof -
  from assms(1) have ne: "start_timestamp \<noteq> end_timestamp'" by simp
  note pub = run_loop_published[OF ne, of g gh fsc]
  have a: "published_progress (fst (run_loop start_timestamp end_timestamp' g gh fsc))
           = map (\<lambda>r. RunProgress (clamp_percent
                    (progress_percent start_timestamp end_timestamp' (end_timestamp r))))
               (yields_of g)"
    unfolding pub using assms(2) by (intro map_cong refl) (simp add: clamp_percent_in_range(1)[OF assms(1)])
  have b: "shown_progress (fst (run_loop start_timestamp end_timestamp' g gh fsc))
           = map (\<lambda>r. Inr (ProgressBar (clamp_percent
                    (progress_percent start_timestamp end_timestamp' (end_timestamp r)))))
               (yields_of g)"
    unfolding shown_of_published pub map_map using assms(2)
    by (intro map_cong refl) (simp add: clamp_percent_in_range[OF assms(1)])
  from a b show ?thesis ..
qed

theorem progress_published_and_shown_witness:
  "published_progress (fst (run_loop 0 100 (stepping_strategy 0 100 25 []) [] (reset_cache empty_cache)))
     = map (\<lambda>r. RunProgress (clamp_percent (progress_percent 0 100 (end_timestamp r))))
         (yields_of (stepping_strategy 0 100 25 [])) \<and>
   shown_progress (fst (run_loop 0 100 (stepping_strategy 0 100 25 []) [] (reset_cache empty_cache)))
     = map (\<lambda>r. Inr (ProgressBar (clamp_percent (progress_percent 0 100 (end_timestamp r)))))
         (yields_of (stepping_strategy 0 100 25 []))"
proof -
  have h1: "(0::int) < 100" by simp
  have h2: "\<forall>r\<in>set (yields_of (stepping_strategy 0 100 25 [])). 0 \<le> end_timestamp r \<and> end_timestamp r \<le> 100"
    by (simp add: stepping_strategy_yields valid_portfolio_def step_timestamps_25 step_result_def)
  show ?thesis
    by (rule progress_published_and_shown[OF h1 h2])
qed

text \<open>
  Claim C5. Within one run of the strategy as the spec describes it, the progress values
  that the loop of \<open>update_report_state\<close> stores step after step are non-decreasing, and
  the value stored at the final step is exactly 100. A request that the strategy rejects
  has no step.
\<close>

theorem progress_monotone_final:
  "\<exists>ps. published_progress
            (fst (run_loop start_timestamp end_timestamp'
                    (stepping_strategy start_timestamp end_timestamp' granularity portfolio)
                    gh fsc))
          = map RunProgress ps \<and>
        sorted ps \<and>
        (ps \<noteq> [] \<longrightarrow> last ps = 100)"
proof (cases "start_timestamp < end_timestamp' \<and> valid_portfolio portfolio \<and> 0 < granularity")
  case True
  let ?ts = "step_timestamps start_timestamp end_timestamp' granularity"
  let ?g = "stepping_strategy start_timestamp end_timestamp' granularity portfolio"
  from True have y: "yields_of ?g = map step_result ?ts"
    by (simp add: stepping_strategy_yields)
  note p = step_timestamps_props[of granularity start_timestamp end_timestamp']
  from True have srt: "sorted (map end_timestamp (yields_of ?g))"
    by (simp only: y end_timestamp_step_result p(1))
  from True have lst: "end_timestamp (last (yields_of ?g)) = end_timestamp'"
    using p(2,3) by (simp add: y last_map step_result_def)
  from progress_monotone_last[OF _ srt, of start_timestamp end_timestamp' gh fsc] True lst
  show ?thesis by auto
next
  case False
  let ?g = "stepping_strategy start_timestamp end_timestamp' granularity portfolio"
  from False have y: "yields_of ?g = []"
    by (auto simp: stepping_strategy_yields step_timestamps_def)
  have "published_progress (fst (run_loop start_timestamp end_timestamp' ?g gh fsc)) = []"
  proof (cases "start_timestamp = end_timestamp'")
    case True
    then have "?g = Raises ValueError"
      by (simp add: stepping_strategy_def)
    then show ?thesis
      by (simp add: published_progress_def)
  next
    case False
    from run_loop_published[OF False, of ?g gh fsc] show ?thesis
      by (simp only: y list.map)
  qed
  then show ?thesis by simp
qed

theorem progress_monotone_final_witness:
  "published_progress
      (fst (run_loop 0 100 (stepping_strategy 0 100 30 []) [] (reset_cache empty_cache)))
     = [RunProgress 0, RunProgress 30, RunProgress 60, RunProgress 90, RunProgress 100] \<and>
   (\<exists>ps. published_progress
            (fst (run_loop 0 100 (stepping_strategy 0 100 30 []) [] (reset_cache empty_cache)))
          = map RunProgress ps \<and>
        sorted ps \<and> ps \<noteq> [] \<and> last ps = 100)"
proof -
  have a: "published_progress
      (fst (run_loop 0 100 (stepping_strategy 0 100 30 []) [] (reset_cache empty_cache)))
     = [RunProgress 0, RunProgress 30, RunProgress 60, RunProgress 90, RunProgress 100]"
    by (subst run_loop_published)
       (simp_all add: stepping_strategy_yields valid_portfolio_def step_timestamps_30
          step_result_def progress_percent_def)
  from progress_monotone_final[of 0 100 30 "[]" "[]" "reset_cache empty_cache"]
  obtain ps where ps: "published_progress
            (fst (run_loop 0 100 (stepping_strategy 0 100 30 []) [] (reset_cache empty_cache)))
          = map RunProgress ps" "sorted ps" "ps \<noteq> [] \<longrightarrow> last ps = 100"
    by blast
  from ps(1) a have "ps \<noteq> []" by auto
  with ps have "published_progress
            (fst (run_loop 0 100 (stepping_strategy 0 100 30 []) [] (reset_cache empty_cache)))
          = map RunProgress ps \<and> sorted ps \<and> ps \<noteq> [] \<and> last ps = 100"
    by simp
  then have b: "\<exists>ps. published_progress
            (fst (run_loop 0 100 (stepping_strategy 0 100 30 []) [] (reset_cache empty_cache)))
          = map RunProgress ps \<and> sorted ps \<and> ps \<noteq> [] \<and> last ps = 100"
    by (rule exI)
  show ?thesis by (rule conjI[OF a b])
qed

text \<open>
  Claim C6. A run request (the button was clicked, both timestamps parse) whose portfolio
  text \<open>json.loads\<close> rejects fails with that error before the strategy is called. With the
  strategy as the spec describes it, a request whose end timestamp is not strictly after
  its start, or whose portfolio holds an amount that is negative or no number, fails with
  the strategy's validation error before its first step. In both cases the cache has gone
  through the reset only: no step ran, and report table, run progress and prices read
  \<open>None\<close>.
\<close>

theorem invalid_request_fails_before_first_step:
  assumes "run_n_clicks ctl = Some n"
    and "parse_timestamp (fst (date_range ctl)) (start_time ctl) = Inr s"
    and "parse_timestamp (snd (date_range ctl)) (end_time ctl) = Inr e"
  shows "(json_loads (json_portfolio ctl) = Inl err \<longrightarrow>
            update_report_state parse_timestamp json_loads stepping_strategy ctl fsc
              = ([reset_cache fsc], Inl err)) \<and>
         (json_loads (json_portfolio ctl) = Inr pf \<and> (e \<le> s \<or> \<not> valid_portfolio pf) \<longrightarrow>
            update_report_state parse_timestamp json_loads stepping_strategy ctl fsc
              = ([reset_cache fsc], Inl ValueError)) \<and>
         fsc_get (reset_cache fsc) ''report_table'' = PyNone \<and>
         fsc_get (reset_cache fsc) ''run_progress'' = PyNone \<and>
         fsc_get (reset_cache fsc) ''prices'' = PyNone"
proof (intro conjI impI)
  assume "json_loads (json_portfolio ctl) = Inl err"
  with assms show "update_report_state parse_timestamp json_loads stepping_strategy ctl fsc
              = ([reset_cache fsc], Inl err)"
    by (simp add: update_report_state_def Let_def)
next
  assume a: "json_loads (json_portfolio ctl) = Inr pf \<and> (e \<le> s \<or> \<not> valid_portfolio pf)"
  then have "stepping_strategy s e (primary_granularity ctl) pf = Raises ValueError"
    by (simp add: stepping_strategy_def)
  with assms a show "update_report_state parse_timestamp json_loads stepping_strategy ctl fsc
              = ([reset_cache fsc], Inl ValueError)"
    by (simp add: update_report_state_def Let_def)
qed (simp_all add: fsc_get_reset_cache)

theorem invalid_request_fails_before_first_step_witness:
  "update_report_state sample_parse_timestamp sample_json_loads stepping_strategy
       malformed_controls used_cache = ([reset_cache used_cache], Inl JSONDecodeError) \<and>
   update_report_state sample_parse_timestamp sample_json_loads stepping_strategy
       equal_range_controls used_cache = ([reset_cache used_cache], Inl ValueError) \<and>
   fsc_get (reset_cache used_cache) ''report_table'' = PyNone \<and>
   fsc_get (reset_cache used_cache) ''run_progress'' = PyNone \<and>
   fsc_get (reset_cache used_cache) ''prices'' = PyNone"
proof -
  have m: "run_n_clicks malformed_controls = Some 1"
    "sample_parse_timestamp (fst (date_range malformed_controls)) (start_time malformed_controls) = Inr 0"
    "sample_parse_timestamp (snd (date_range malformed_controls)) (end_time malformed_controls) = Inr 100"
    "sample_json_loads (json_portfolio malformed_controls) = Inl JSONDecodeError"
    by (simp_all add: malformed_controls_def sample_controls_def sample_parse_timestamp_def
          sample_json_loads_def)
  have q: "run_n_clicks equal_range_controls = Some 1"
    "sample_parse_timestamp (fst (date_range equal_range_controls)) (start_time equal_range_controls) = Inr 0"
    "sample_parse_timestamp (snd (date_range equal_range_controls)) (end_time equal_range_controls) = Inr 0"
    "sample_json_loads (json_portfolio equal_range_controls) = Inr [] \<and>
       ((0::int) \<le> 0 \<or> \<not> valid_portfolio [])"
    by (simp_all add: equal_range_controls_def sample_controls_def sample_parse_timestamp_def
          sample_json_loads_def)
  note t1 = invalid_request_fails_before_first_step[OF m(1,2,3),
      where json_loads = sample_json_loads and fsc = used_cache and err = JSONDecodeError]
  note t2 = invalid_request_fails_before_first_step[OF q(1,2,3),
      where json_loads = sample_json_loads and fsc = used_cache and pf = "[]"]
  from t1[THEN conjunct1, THEN mp, OF m(4)]
  have a: "update_report_state sample_parse_timestamp sample_json_loads stepping_strategy
       malformed_controls used_cache = ([reset_cache used_cache], Inl JSONDecodeError)" .
  from t2[THEN conjunct2, THEN conjunct1, THEN mp, OF q(4)]
  have b: "update_report_state sample_parse_timestamp sample_json_loads stepping_strategy
       equal_range_controls used_cache = ([reset_cache used_cache], Inl ValueError)" .
  note c = t2[THEN conjunct2, THEN conjunct2]
  show ?thesis
    by (rule conjI[OF a conjI[OF b c]])
qed

text \<open>
  Claim C7, as the code has it. A run that starts (the button was clicked) resets the cache
  before anything else: the first cache state of the run is \<open>reset_cache\<close> of the old one.
  In it the report table, the run progress and the prices read \<open>None\<close>; the graphs history
  reads what it read before, because \<open>reset_cache\<close> saves it and writes it back. On a cache
  in which every key reads \<open>None\<close> the reset changes no read.
\<close>

theorem new_run_resets_all_but_graphs_history:
  assumes "run_n_clicks ctl = Some n"
  shows "\<exists>states res.
           update_report_state parse_timestamp json_loads strategy ctl fsc
             = (reset_cache fsc # states, res) \<and>
           fsc_get (reset_cache fsc) ''report_table'' = PyNone \<and>
           fsc_get (reset_cache fsc) ''run_progress'' = PyNone \<and>
           fsc_get (reset_cache fsc) ''prices'' = PyNone \<and>
           fsc_get (reset_cache fsc) ''graphs_history'' = fsc_get fsc ''graphs_history'' \<and>
           ((\<forall>k. fsc_get fsc k = PyNone) \<longrightarrow> (\<forall>k. fsc_get (reset_cache fsc) k = PyNone))"
proof -
  from update_report_state_starts_with_reset[OF assms]
  obtain states res where "update_report_state parse_timestamp json_loads strategy ctl fsc
                        = (reset_cache fsc # states, res)"
    by blast
  moreover have "fsc_get (reset_cache fsc) ''report_table'' = PyNone"
    "fsc_get (reset_cache fsc) ''run_progress'' = PyNone"
    "fsc_get (reset_cache fsc) ''prices'' = PyNone"
    "fsc_get (reset_cache fsc) ''graphs_history'' = fsc_get fsc ''graphs_history''"
    "(\<forall>k. fsc_get fsc k = PyNone) \<longrightarrow> (\<forall>k. fsc_get (reset_cache fsc) k = PyNone)"
    by (simp_all add: fsc_get_reset_cache)
  ultimately show ?thesis by blast
qed

theorem new_run_resets_all_but_graphs_history_witness:
  "\<exists>states res.
           update_report_state sample_parse_timestamp sample_json_loads stepping_strategy
               (sample_controls 25) empty_cache
             = (reset_cache empty_cache # states, res) \<and>
           fsc_get (reset_cache empty_cache) ''report_table'' = PyNone \<and>
           fsc_get (reset_cache empty_cache) ''run_progress'' = PyNone \<and>
           fsc_get (reset_cache empty_cache) ''prices'' = PyNone \<and>
           fsc_get (reset_cache empty_cache) ''graphs_history'' = fsc_get empty_cache ''graphs_history'' \<and>
           (\<forall>k. fsc_get (reset_cache empty_cache) k = PyNone)"
proof -
  have h: "run_n_clicks (sample_controls 25) = Some 1"
    by (simp add: sample_controls_def)
  have e: "\<forall>k. fsc_get empty_cache k = PyNone"
    by (simp add: fsc_get_def empty_cache_def)
  from new_run_resets_all_but_graphs_history[OF h, where parse_timestamp = sample_parse_timestamp
      and json_loads = sample_json_loads and strategy = stepping_strategy and fsc = empty_cache]
  obtain states res where
    a: "update_report_state sample_parse_timestamp sample_json_loads stepping_strategy
               (sample_controls 25) empty_cache
             = (reset_cache empty_cache # states, res)"
    and b: "fsc_get (reset_cache empty_cache) ''report_table'' = PyNone"
      "fsc_get (reset_cache empty_cache) ''run_progress'' = PyNone"
      "fsc_get (reset_cache empty_cache) ''prices'' = PyNone"
      "fsc_get (reset_cache empty_cache) ''graphs_history''
         = fsc_get empty_cache ''graphs_history''"
    and c: "(\<forall>k. fsc_get empty_cache k = PyNone) \<longrightarrow>
            (\<forall>k. fsc_get (reset_cache empty_cache) k = PyNone)"
    by (elim exE conjE)
  from c e have d: "\<forall>k. fsc_get (reset_cache empty_cache) k = PyNone"
    by (rule mp)
  show ?thesis
    by (rule exI[of _ states], rule exI[of _ res]) (intro conjI a b d)
qed

text \<open>
  Claim C7 as stated fails on a cache that an earlier run left: when the new run starts,
  the graphs history of the earlier run is still there.
\<close>

theorem graphs_history_survives_counterexample:
  "fsc_get (hd (fst (update_report_state sample_parse_timestamp sample_json_loads
                       stepping_strategy (sample_controls 25) used_cache))) ''graphs_history''
     = GraphsHistory [0, 25, 50]"
proof -
  have h: "run_n_clicks (sample_controls 25) = Some 1"
    by (simp add: sample_controls_def)
  from update_report_state_starts_with_reset[OF h]
  have "hd (fst (update_report_state sample_parse_timestamp sample_json_loads
                       stepping_strategy (sample_controls 25) used_cache)) = reset_cache used_cache"
    by (metis fst_conv list.sel(1))
  then show ?thesis
    by (simp add: fsc_get_reset_cache) (simp add: fsc_get_def used_cache_def)
qed

text \<open>
  Claim C8, as the code has it. \<open>reset_cache\<close> applied twice gives the same cache as
  applied once, for every cache. Applied to a cache in which every key reads \<open>None\<close> it
  leaves a cache in which every key reads \<open>None\<close>. Applied to a cache that was reset
  before, it leaves the graphs history that the cache held before the first reset, and
  \<open>None\<close> under every other key. None of its statements can raise: \<open>get\<close>, \<open>clear\<close> and
  \<open>set\<close> have no failing case, so the function is total.
\<close>

theorem reset_cache_idempotent:
  "reset_cache (reset_cache fsc) = reset_cache fsc \<and>
   ((\<forall>k. fsc_get fsc k = PyNone) \<longrightarrow> (\<forall>k. fsc_get (reset_cache fsc) k = PyNone)) \<and>
   (\<forall>k. fsc_get (reset_cache (reset_cache fsc)) k
          = (if k = ''graphs_history'' then fsc_get fsc ''graphs_history'' else PyNone))"
proof (intro conjI)
  have "fsc_get (reset_cache fsc) ''graphs_history'' = fsc_get fsc ''graphs_history''"
    by (simp add: fsc_get_reset_cache)
  then show "reset_cache (reset_cache fsc) = reset_cache fsc"
    by (simp add: reset_cache_map[of "reset_cache fsc"]) (simp add: reset_cache_map)
  show "(\<forall>k. fsc_get fsc k = PyNone) \<longrightarrow> (\<forall>k. fsc_get (reset_cache fsc) k = PyNone)"
    by (simp add: fsc_get_reset_cache)
  show "\<forall>k. fsc_get (reset_cache (reset_cache fsc)) k
          = (if k = ''graphs_history'' then fsc_get fsc ''graphs_history'' else PyNone)"
    by (simp add: fsc_get_reset_cache)
qed

theorem reset_cache_idempotent_witness:
  "reset_cache (reset_cache empty_cache) = reset_cache empty_cache \<and>
   (\<forall>k. fsc_get (reset_cache empty_cache) k = PyNone) \<and>
   fsc_get (reset_cache (reset_cache used_cache)) ''report_table'' = PyNone"
proof -
  have e: "\<forall>k. fsc_get empty_cache k = PyNone"
    by (simp add: fsc_get_def empty_cache_def)
  note t = reset_cache_idempotent[of empty_cache]
  note a = t[THEN conjunct1]
  from t[THEN conjunct2, THEN conjunct1] e
  have b: "\<forall>k. fsc_get (reset_cache empty_cache) k = PyNone"
    by (rule mp)
  from reset_cache_idempotent[of used_cache, THEN conjunct2, THEN conjunct2, THEN spec,
      of "''report_table''"]
  have c: "fsc_get (reset_cache (reset_cache used_cache)) ''report_table'' = PyNone"
    by simp
  show ?thesis
    by (rule conjI[OF a conjI[OF b c]])
qed

text \<open>
  Claim C8 as stated fails on a cache that was already cleared by \<open>reset_cache\<close> after a
  run: the second reset does not leave it empty, the graphs history of the run is still
  there.
\<close>

theorem already_cleared_counterexample:
  "fsc_get (reset_cache (reset_cache used_cache)) ''graphs_history'' = GraphsHistory [0, 25, 50]"
  by (simp add: fsc_get_reset_cache) (simp add: fsc_get_def used_cache_def)

text \<open>
  Claim C9, as the code has it. When the cache holds no progress the poller returns the
  bar for 0, and so it does when a run is in progress with 0 percent stored: the two reads
  return the same. They differ in what they leave behind: the first resets the cache, the
  second leaves it as it is.
\<close>

theorem empty_read_same_as_zero_percent:
  assumes "fsc_get idle ''run_progress'' = PyNone"
    and "fsc_get running ''run_progress'' = RunProgress 0"
  shows "fst (update_run_progress idle) = Inr (ProgressBar 0) \<and>
         fst (update_run_progress running) = Inr (ProgressBar 0) \<and>
         snd (update_run_progress idle) = reset_cache idle \<and>
         snd (update_run_progress running) = running"
  using assms by (simp add: update_run_progress_def Let_def)

theorem empty_read_same_as_zero_percent_witness:
  "fst (update_run_progress empty_cache) = Inr (ProgressBar 0) \<and>
   fst (update_run_progress (snd (publish 0 100 (step_result 0) (reset_cache empty_cache))))
     = Inr (ProgressBar 0) \<and>
   snd (update_run_progress empty_cache) = reset_cache empty_cache \<and>
   snd (update_run_progress (snd (publish 0 100 (step_result 0) (reset_cache empty_cache))))
     = snd (publish 0 100 (step_result 0) (reset_cache empty_cache))"
proof -
  have e: "fsc_get empty_cache ''run_progress'' = PyNone"
    by (simp add: fsc_get_def empty_cache_def)
  show ?thesis
    by (rule empty_read_same_as_zero_percent[OF e first_step_cache])
qed

text \<open>
  Claim C9 as stated fails: the read of the empty cache and the read after the first step
  of a run from 0 to 100 (the step at 0, progress 0) return the same bar.
\<close>

theorem empty_read_counterexample:
  "fst (update_run_progress empty_cache)
     = fst (update_run_progress (snd (publish 0 100 (step_result 0) (reset_cache empty_cache))))"
proof -
  have e: "fsc_get empty_cache ''run_progress'' = PyNone"
    by (simp add: fsc_get_def empty_cache_def)
  show ?thesis
    by (simp add: update_run_progress_shows e first_step_cache)
qed

end
